theory Spec2Isabelle
  imports Main "HOL-Library.Char_ord" "HOL-Library.List_Lexorder"
begin

section \<open>Python values, exceptions and effects\<close>

text \<open>
  The module \<^verbatim>\<open>warp_journal/util.py\<close> talks to the operating system all the time:
  environment variables, the file system, sockets, an HTTP probe, a sub-process and a
  Tk dialog. Every such call is an oracle of the record \<open>world\<close> below; what the module
  itself does (logging, dialogs, writes, network calls) is recorded as a list of events.
\<close>

datatype platform = Win32 | Linux | Darwin | OtherPlatform

text \<open>
  The exception classes the module raises, catches or lets through. \<open>SystemExit n\<close> is
  what \<^verbatim>\<open>sys.exit(n)\<close> raises. \<^verbatim>\<open>urlopen\<close> wraps the errors of connecting and of
  sending the request into \<^verbatim>\<open>URLError\<close>; what reading the response raises comes through
  as it is: \<open>TimeoutError\<close> when the listener accepts the connection and stays silent for
  the time-out, \<open>ConnectionResetError\<close> when it drops the connection, \<open>BadStatusLine\<close>
  (an \<^verbatim>\<open>http.client.HTTPException\<close>) when it answers with something that is no HTTP.
  \<open>OtherException\<close> stands for every other class that no \<^verbatim>\<open>except\<close> clause of the
  module names (a Tk error, a JSON decoding error).
\<close>

datatype exn =
    KeyError | TypeError | ImportError
  | OSError | FileNotFoundError | FileExistsError | NotADirectoryError
  | TimeoutError | ConnectionResetError
  | URLError | HTTPError
  | BadStatusLine
  | CalledProcessError
  | UnboundLocalError
  | SystemExit int
  | OtherException

text \<open>The subclass relation of Python's exception hierarchy, as far as the clauses need it.\<close>

fun is_OSError :: "exn \<Rightarrow> bool" where
  "is_OSError OSError = True"
| "is_OSError FileNotFoundError = True"
| "is_OSError FileExistsError = True"
| "is_OSError NotADirectoryError = True"
| "is_OSError TimeoutError = True"
| "is_OSError ConnectionResetError = True"
| "is_OSError URLError = True"
| "is_OSError HTTPError = True"
| "is_OSError _ = False"

fun is_URLError :: "exn \<Rightarrow> bool" where
  "is_URLError URLError = True"
| "is_URLError HTTPError = True"
| "is_URLError _ = False"

datatype level = DEBUG | INFO | ERROR

text \<open>
  A path of \<^verbatim>\<open>pathlib\<close>: the anchor (drive and root) and the components after it.
\<close>

datatype path = PurePath (anchor: string) (parts: "string list")

text \<open>
  \<^verbatim>\<open>p / 'a/b/'\<close> for a relative right operand without drive: its components are
  appended (a trailing separator is dropped by pathlib). The literal is given by its
  components.
\<close>

definition joinpath :: "path \<Rightarrow> string list \<Rightarrow> path" where
  "joinpath p rel = PurePath (anchor p) (parts p @ rel)"

text \<open>\<^verbatim>\<open>p.name\<close>: the last component, the empty string when there is none.\<close>

definition name :: "path \<Rightarrow> string" where
  "name p = (if parts p = [] then [] else last (parts p))"

fun join_with :: "string \<Rightarrow> string list \<Rightarrow> string" where
  "join_with sep [] = []"
| "join_with sep [x] = x"
| "join_with sep (x # y # ys) = x @ sep @ join_with sep (y # ys)"

text \<open>\<^verbatim>\<open>str(p)\<close>: the separator is the backslash on Windows, the slash elsewhere.\<close>

definition path_str :: "platform \<Rightarrow> path \<Rightarrow> string" where
  "path_str pf p =
     (if anchor p = [] \<and> parts p = [] then ''.''
      else anchor p @ join_with (if pf = Win32 then [CHR 0x5C] else ''/'') (parts p))"

text \<open>A value that is a \<^verbatim>\<open>str\<close> or a \<^verbatim>\<open>Path\<close>: \<^verbatim>\<open>get_game_path\<close> returns either.\<close>

datatype pyval = PStr string | PPath path

text \<open>
  The result of \<^verbatim>\<open>json.load\<close>. An object is the list of its bindings in the order of
  the file. The module never looks into a number, so integers stand for all of them.
\<close>

datatype json =
    JNull | JBool bool | JNum int | JStr string
  | JArr "json list" | JObj "(string \<times> json) list"

datatype event =
    Log level string
  | Dialog string
  | Mkdir path
  | Shell string
  | SockBind nat
  | UrlOpen nat

record world =
  sys_platform :: platform
  environ :: "string \<rightharpoonup> string"
  pathlib :: "string \<Rightarrow> path"
  home :: path
  path_exists :: "path \<Rightarrow> bool"
  path_is_dir :: "path \<Rightarrow> bool"
  listdir :: "path \<Rightarrow> exn + string list"
  open_text :: "path \<Rightarrow> exn + string"
  json_load :: "path \<Rightarrow> exn + json"
  mkdir :: "path \<Rightarrow> exn option"
  check_output :: "string \<Rightarrow> exn option"
  sock_bind :: "nat \<Rightarrow> exn option"
  urlopen :: "nat \<Rightarrow> exn option"
  import_tkinter :: "exn option"
  tk_dialog :: "string \<Rightarrow> exn option"

text \<open>
  \<^item> \<open>pathlib w s\<close> is \<^verbatim>\<open>Path(s)\<close> in the flavour of the platform; \<open>home w\<close> is what
    \<^verbatim>\<open>expanduser\<close> puts for \<^verbatim>\<open>~\<close>.
  \<^item> \<open>listdir w p\<close> are the entry names \<^verbatim>\<open>p.iterdir()\<close> walks through, in the order
    the system lists them, or the exception it raises.
  \<^item> \<open>open_text w p\<close> is the text of the file as text mode delivers it (line ends
    translated to the newline character), \<open>json_load w p\<close> what \<^verbatim>\<open>json.load\<close> makes
    of the file, or the exception that opening or reading raises.
  \<^item> \<open>sock_bind w n\<close> is the outcome of \<^verbatim>\<open>s.bind(('localhost', n))\<close> on a fresh socket
    (creating the socket is taken to succeed), \<open>urlopen w n\<close> the outcome of the
    \<^verbatim>\<open>urlopen\<close> call on port \<open>n\<close> with its time-out of a tenth of a second.
  \<^item> \<open>mkdir\<close>, \<open>check_output\<close>, \<open>sock_bind\<close>, \<open>urlopen\<close>, \<open>import_tkinter\<close> and
    \<open>tk_dialog\<close> answer \<open>None\<close> when the call succeeds and \<open>Some e\<close> when it raises \<open>e\<close>.
\<close>

text \<open>A run of a function: the events it caused, and the exception or the value it ended with.\<close>

type_synonym 'a run = "event list \<times> (exn + 'a)"

definition return_run :: "'a \<Rightarrow> 'a run" where
  "return_run x = ([], Inr x)"

definition raise_exn :: "exn \<Rightarrow> 'a run" where
  "raise_exn e = ([], Inl e)"

definition emit :: "event \<Rightarrow> unit run" where
  "emit ev = ([ev], Inr ())"

definition lift :: "exn + 'a \<Rightarrow> 'a run" where
  "lift r = ([], r)"

definition bind_run :: "'a run \<Rightarrow> ('a \<Rightarrow> 'b run) \<Rightarrow> 'b run" where
  "bind_run m f =
     (case m of
        (t, Inl e) \<Rightarrow> (t, Inl e)
      | (t, Inr x) \<Rightarrow> (case f x of (t', r) \<Rightarrow> (t @ t', r)))"

text \<open>\<^verbatim>\<open>try: m except <classes>: h\<close>.\<close>

definition try_except :: "'a run \<Rightarrow> (exn \<Rightarrow> bool) \<Rightarrow> 'a run \<Rightarrow> 'a run" where
  "try_except m catches h =
     (case m of
        (t, Inl e) \<Rightarrow> (if catches e then (case h of (t', r) \<Rightarrow> (t @ t', r)) else (t, Inl e))
      | (t, Inr x) \<Rightarrow> (t, Inr x))"

text \<open>
  How a statement inside a function body ends when it does not raise: control falls
  through to the next statement, or the function returns a value.
\<close>

datatype 'a completion = Fallthrough | Returns 'a

text \<open>\<^verbatim>\<open>s1; s2\<close>: the second statement runs only when the first falls through.\<close>

definition seq :: "'a completion run \<Rightarrow> 'a completion run \<Rightarrow> 'a completion run" where
  "seq s1 s2 = bind_run s1 (\<lambda>c. case c of Fallthrough \<Rightarrow> s2 | Returns v \<Rightarrow> return_run (Returns v))"

text \<open>The end of a function body: falling off the end returns \<^verbatim>\<open>None\<close>.\<close>

definition body :: "'a option completion run \<Rightarrow> 'a option run" where
  "body s = bind_run s (\<lambda>c. case c of Fallthrough \<Rightarrow> return_run None | Returns v \<Rightarrow> return_run v)"

definition logging :: "level \<Rightarrow> string \<Rightarrow> unit run" where
  "logging lv msg = emit (Log lv msg)"

text \<open>A call that answers \<open>None\<close> on success and \<open>Some e\<close> when it raises \<open>e\<close>.\<close>

definition lift_opt :: "exn option \<Rightarrow> unit run" where
  "lift_opt r = (case r of None \<Rightarrow> return_run () | Some e \<Rightarrow> raise_exn e)"

section \<open>Strings\<close>

text \<open>\<^verbatim>\<open>s.split(d)\<close> for a one-character separator.\<close>

fun split_on :: "char \<Rightarrow> string \<Rightarrow> string list" where
  "split_on d [] = [[]]"
| "split_on d (c # cs) =
     (if c = d then [] # split_on d cs
      else (case split_on d cs of [] \<Rightarrow> [[c]] | w # ws \<Rightarrow> (c # w) # ws))"

text \<open>
  The lines a text file yields when it is iterated: each line keeps its newline, the
  last one may lack it.
\<close>

fun file_lines :: "string \<Rightarrow> string list" where
  "file_lines [] = []"
| "file_lines (c # cs) =
     (if c = CHR 0x0A then [c] # file_lines cs
      else (case file_lines cs of [] \<Rightarrow> [[c]] | l # ls \<Rightarrow> (c # l) # ls))"

subsection \<open>The regular expression of the log scan\<close>

text \<open>
  \<^verbatim>\<open>re.compile('Loading player data from (.+)/StarRail_Data/data.unity3d')\<close>:
  a literal, the group \<^verbatim>\<open>(.+)\<close>, and a tail of literal characters with one unescaped
  dot. A dot matches every character but the newline. \<^verbatim>\<open>search\<close> takes the leftmost
  position where the expression matches; the group is greedy, so it is the longest run
  after which the tail still matches.
\<close>

datatype atom = Lit char | AnyChar

fun atom_matches :: "atom \<Rightarrow> char \<Rightarrow> bool" where
  "atom_matches (Lit a) c = (c = a)"
| "atom_matches AnyChar c = (c \<noteq> CHR 0x0A)"

text \<open>The atoms match at the start of the string.\<close>

fun match_atoms :: "atom list \<Rightarrow> string \<Rightarrow> bool" where
  "match_atoms [] s = True"
| "match_atoms (a # as) [] = False"
| "match_atoms (a # as) (c # cs) = (atom_matches a c \<and> match_atoms as cs)"

text \<open>The string after the atoms, when they match at its start.\<close>

fun drop_atoms :: "atom list \<Rightarrow> string \<Rightarrow> string option" where
  "drop_atoms [] s = Some s"
| "drop_atoms (a # as) [] = None"
| "drop_atoms (a # as) (c # cs) = (if atom_matches a c then drop_atoms as cs else None)"

text \<open>
  \<^verbatim>\<open>(.+)\<close> followed by the tail: the longest non-empty run of non-newline characters
  after which the tail matches (longer runs are tried first, as backtracking does).
\<close>

fun greedy_group :: "atom list \<Rightarrow> string \<Rightarrow> string option" where
  "greedy_group tail [] = None"
| "greedy_group tail (c # cs) =
     (if c = CHR 0x0A then None
      else (case greedy_group tail cs of
              Some g \<Rightarrow> Some (c # g)
            | None \<Rightarrow> (if match_atoms tail cs then Some [c] else None)))"

definition regex_head :: "atom list" where
  "regex_head = map Lit ''Loading player data from ''"

definition regex_tail :: "atom list" where
  "regex_tail = map Lit ''/StarRail_Data/data'' @ [AnyChar] @ map Lit ''unity3d''"

text \<open>A match starting at the first character: \<^verbatim>\<open>match.group(1)\<close>.\<close>

definition regex_match_here :: "string \<Rightarrow> string option" where
  "regex_match_here s =
     (case drop_atoms regex_head s of None \<Rightarrow> None | Some rest \<Rightarrow> greedy_group regex_tail rest)"

text \<open>\<^verbatim>\<open>regex.search(line)\<close>, answering the first group of the match.\<close>

fun regex_search :: "string \<Rightarrow> string option" where
  "regex_search [] = regex_match_here []"
| "regex_search (c # cs) =
     (case regex_match_here (c # cs) of Some g \<Rightarrow> Some g | None \<Rightarrow> regex_search cs)"

section \<open>Fatal errors\<close>

text \<open>
  \<^verbatim>\<open>
  def show_error_dialog(message):
      try:
          import tkinter
          from tkinter import ttk
      except ImportError:
          return
      root = tkinter.Tk()
      ...
      root.mainloop()
  \<close>
  The Tk calls after the import are one oracle, \<open>tk_dialog\<close>: they show the window and
  come back when it is closed, or raise.
\<close>

definition show_error_dialog :: "world \<Rightarrow> string \<Rightarrow> unit run" where
  "show_error_dialog w message =
     bind_run (try_except
                 (bind_run (lift_opt (import_tkinter w)) (\<lambda>_. return_run Fallthrough))
                 (\<lambda>e. e = ImportError)
                 (return_run (Returns ())))
       (\<lambda>c. case c of
               Returns u \<Rightarrow> return_run ()
             | Fallthrough \<Rightarrow>
                 bind_run (lift_opt (tk_dialog w message)) (\<lambda>_. emit (Dialog message)))"

text \<open>
  \<^verbatim>\<open>
  def panic(message):
      logging.error(message)
      show_error_dialog(message)
      logging.info('Quitting')
      sys.exit(1)
  \<close>
\<close>

definition panic :: "world \<Rightarrow> string \<Rightarrow> unit run" where
  "panic w message =
     bind_run (logging ERROR message) (\<lambda>_.
     bind_run (show_error_dialog w message) (\<lambda>_.
     bind_run (logging INFO ''Quitting'') (\<lambda>_.
     raise_exn (SystemExit 1))))"

section \<open>The data directory\<close>

text \<open>
  \<^verbatim>\<open>
  def get_data_path():
      if sys.platform == 'win32':
          path = Path(os.environ['APPDATA']) / 'warp-journal'
      elif sys.platform == 'linux':
          if 'XDG_DATA_HOME' in os.environ:
              path = Path(os.environ['XDG_DATA_HOME']) / 'warp-journal'
          else:
              path = Path('~/.local/share/warp-journal').expanduser()
      elif sys.platform == 'darwin':
          if 'XDG_DATA_HOME' in os.environ:
              path = Path(os.environ['XDG_DATA_HOME']) / 'warp-journal'
          else:
              path = Path('~/Library/Application Support/warp-journal').expanduser()
      else:
          panic('Warp Journal is only designed to run on Windows or Linux-based systems.')
      try:
          path.mkdir(parents=True, exist_ok=True)
      except FileExistsError:
          panic(f'{path} already exists, but is a file.')
      return path
  \<close>
  Were \<^verbatim>\<open>panic\<close> to come back in the last branch, \<^verbatim>\<open>path\<close> would be unbound.
\<close>

definition environ_get :: "world \<Rightarrow> string \<Rightarrow> string run" where
  "environ_get w k = (case environ w k of None \<Rightarrow> raise_exn KeyError | Some v \<Rightarrow> return_run v)"

definition xdg_or :: "world \<Rightarrow> string list \<Rightarrow> path" where
  "xdg_or w dflt =
     (case environ w ''XDG_DATA_HOME'' of
        Some x \<Rightarrow> joinpath (pathlib w x) [''warp-journal'']
      | None \<Rightarrow> joinpath (home w) dflt)"

definition get_data_path :: "world \<Rightarrow> path run" where
  "get_data_path w =
     bind_run
       (case sys_platform w of
          Win32 \<Rightarrow> bind_run (environ_get w ''APPDATA'')
                     (\<lambda>a. return_run (joinpath (pathlib w a) [''warp-journal'']))
        | Linux \<Rightarrow> return_run (xdg_or w [''.local'', ''share'', ''warp-journal''])
        | Darwin \<Rightarrow> return_run (xdg_or w [''Library'', ''Application Support'', ''warp-journal''])
        | OtherPlatform \<Rightarrow>
            bind_run (panic w ''Warp Journal is only designed to run on Windows or Linux-based systems.'')
              (\<lambda>_. raise_exn UnboundLocalError))
       (\<lambda>path.
          bind_run
            (try_except
               (bind_run (emit (Mkdir path)) (\<lambda>_. lift_opt (mkdir w path)))
               (\<lambda>e. e = FileExistsError)
               (panic w (path_str (sys_platform w) path @ '' already exists, but is a file.'')))
            (\<lambda>_. return_run path))"

section \<open>The game directory\<close>

text \<open>
  \<^verbatim>\<open>
  def get_game_path_windows():
      if 'USERPROFILE' not in os.environ:
          logging.debug('USERPROFILE environment variable does not exist')
          return None
      log_path = Path(os.environ['USERPROFILE']) / 'AppData/LocalLow/Cognosphere/Star Rail/Player.log'
      if not log_path.exists():
          logging.debug('Player.log not found')
          return None
      regex = re.compile('Loading player data from (.+)/StarRail_Data/data.unity3d')
      with log_path.open() as fp:
          for line in fp:
              match = regex.search(line)
              if match is not None:
                  return match.group(1)
      logging.debug('game path not found in output_log')
      return None
  \<close>
  The value returned on a match is a \<^verbatim>\<open>str\<close>.
\<close>

fun scan_lines :: "string list \<Rightarrow> string option completion run" where
  "scan_lines [] = return_run Fallthrough"
| "scan_lines (line # rest) =
     (case regex_search line of
        Some g \<Rightarrow> return_run (Returns (Some g))
      | None \<Rightarrow> scan_lines rest)"

definition player_log :: "world \<Rightarrow> string \<Rightarrow> path" where
  "player_log w profile =
     joinpath (pathlib w profile) [''AppData'', ''LocalLow'', ''Cognosphere'', ''Star Rail'', ''Player.log'']"

definition get_game_path_windows :: "world \<Rightarrow> string option run" where
  "get_game_path_windows w =
     (case environ w ''USERPROFILE'' of
        None \<Rightarrow>
          bind_run (logging DEBUG ''USERPROFILE environment variable does not exist'')
            (\<lambda>_. return_run None)
      | Some profile \<Rightarrow>
          let log_path = player_log w profile in
          if \<not> path_exists w log_path
          then bind_run (logging DEBUG ''Player.log not found'') (\<lambda>_. return_run None)
          else body
                 (seq (bind_run (lift (open_text w log_path)) (\<lambda>text. scan_lines (file_lines text)))
                      (bind_run (logging DEBUG ''game path not found in output_log'')
                         (\<lambda>_. return_run (Returns None)))))"

text \<open>
  \<^verbatim>\<open>
  def get_game_path_linux():
      hsr_config_path = Path('~/.local/share/honkers-railway-launcher/config.json').expanduser()
      if not hsr_config_path.exists():
          logging.debug('launcher configuration not found')
          return None
      with hsr_config_path.open() as fp:
          config = json.load(fp)
      try:
          global_path = Path(config['game']['path']['global'])
          if global_path.exists():
              return global_path
          china_path = Path(config['game']['path']['china'])
          if china_path.exists():
              return china_path
      except KeyError:
          pass
      logging.debug('game folder configuration in launcher could not be found')
      return None
  \<close>
  Subscripting a JSON object with a key it lacks raises \<^verbatim>\<open>KeyError\<close>; subscripting any
  other JSON value with a string, and \<^verbatim>\<open>Path\<close> of a value that is no string, raise
  \<^verbatim>\<open>TypeError\<close>. Of a repeated key \<^verbatim>\<open>json.load\<close> keeps the last binding.
\<close>

fun getitem :: "json \<Rightarrow> string \<Rightarrow> json run" where
  "getitem (JObj kvs) k =
     (case map_of (rev kvs) k of None \<Rightarrow> raise_exn KeyError | Some v \<Rightarrow> return_run v)"
| "getitem _ k = raise_exn TypeError"

fun path_of_json :: "world \<Rightarrow> json \<Rightarrow> path run" where
  "path_of_json w (JStr s) = return_run (pathlib w s)"
| "path_of_json w _ = raise_exn TypeError"

definition region_path :: "world \<Rightarrow> json \<Rightarrow> string \<Rightarrow> path run" where
  "region_path w config region =
     bind_run (getitem config ''game'') (\<lambda>game.
     bind_run (getitem game ''path'') (\<lambda>paths.
     bind_run (getitem paths region) (\<lambda>v.
     path_of_json w v)))"

definition hsr_config_path :: "world \<Rightarrow> path" where
  "hsr_config_path w = joinpath (home w) [''.local'', ''share'', ''honkers-railway-launcher'', ''config.json'']"

definition get_game_path_linux :: "world \<Rightarrow> path option run" where
  "get_game_path_linux w =
     (if \<not> path_exists w (hsr_config_path w)
      then bind_run (logging DEBUG ''launcher configuration not found'') (\<lambda>_. return_run None)
      else bind_run (lift (json_load w (hsr_config_path w))) (\<lambda>config.
           body
             (seq
                (try_except
                   (bind_run (region_path w config ''global'') (\<lambda>global_path.
                      if path_exists w global_path then return_run (Returns (Some global_path))
                      else bind_run (region_path w config ''china'') (\<lambda>china_path.
                        if path_exists w china_path then return_run (Returns (Some china_path))
                        else return_run Fallthrough)))
                   (\<lambda>e. e = KeyError)
                   (return_run Fallthrough))
                (bind_run (logging DEBUG ''game folder configuration in launcher could not be found'')
                   (\<lambda>_. return_run (Returns None))))))"

text \<open>
  \<^verbatim>\<open>
  def get_game_path():
      if 'GAME_PATH' in os.environ:
          game_path = Path(os.environ['GAME_PATH'])
          sub_path = game_path / 'Games'
          return sub_path if sub_path.exists() else game_path
      elif sys.platform == 'win32':
          return get_game_path_windows()
      elif sys.platform == 'linux':
          return get_game_path_linux()
      else:
          return None
  \<close>
\<close>

definition get_game_path :: "world \<Rightarrow> pyval option run" where
  "get_game_path w =
     (case environ w ''GAME_PATH'' of
        Some override \<Rightarrow>
          let game_path = pathlib w override;
              sub_path = joinpath game_path [''Games'']
          in return_run (Some (PPath (if path_exists w sub_path then sub_path else game_path)))
      | None \<Rightarrow>
          if sys_platform w = Win32
          then bind_run (get_game_path_windows w) (\<lambda>r. return_run (map_option PStr r))
          else if sys_platform w = Linux
          then bind_run (get_game_path_linux w) (\<lambda>r. return_run (map_option PPath r))
          else return_run None)"

section \<open>The newest web-cache directory\<close>

text \<open>
  \<^verbatim>\<open>
  def get_web_cache_path(game_path):
      web_caches = game_path / 'StarRail_Data/webCaches/'
      versions = [p for p in web_caches.iterdir() if p.is_dir() and '.' in p.name]
      if not versions:
          return None
      versions.sort(key=lambda p: p.name.split('.'))
      return versions[-1]
  \<close>
  The argument is whatever \<^verbatim>\<open>get_game_path\<close> returned: on a \<^verbatim>\<open>str\<close> the operator
  \<^verbatim>\<open>/\<close> raises \<^verbatim>\<open>TypeError\<close>. \<^verbatim>\<open>list.sort\<close> is a stable sort by the key; the keys are
  lists of strings, compared as Python compares lists and strings: lexicographically,
  characters by code point.
\<close>

definition truediv :: "pyval \<Rightarrow> string list \<Rightarrow> path run" where
  "truediv v rel = (case v of PStr s \<Rightarrow> raise_exn TypeError | PPath p \<Rightarrow> return_run (joinpath p rel))"

definition iterdir :: "world \<Rightarrow> path \<Rightarrow> path list run" where
  "iterdir w p = bind_run (lift (listdir w p)) (\<lambda>names. return_run (map (\<lambda>n. joinpath p [n]) names))"

definition version_key :: "path \<Rightarrow> string list" where
  "version_key p = split_on (CHR ''.'') (name p)"

definition get_web_cache_path :: "world \<Rightarrow> pyval \<Rightarrow> path option run" where
  "get_web_cache_path w game_path =
     bind_run (truediv game_path [''StarRail_Data'', ''webCaches'']) (\<lambda>web_caches.
     bind_run (iterdir w web_caches) (\<lambda>entries.
       let versions = filter (\<lambda>p. path_is_dir w p \<and> CHR ''.'' \<in> set (name p)) entries in
       if versions = [] then return_run None
       else return_run (Some (last (sort_key version_key versions)))))"

section \<open>The cache file\<close>

text \<open>
  \<^verbatim>\<open>
  def get_cache_path():
      if not (game_path := get_game_path()):
          return None
      web_cache_path = get_web_cache_path(game_path)
      if not web_cache_path:
          logging.debug('could not find latest webCaches subfolder')
          return None
      path = web_cache_path / 'Cache/Cache_Data/data_2'
      logging.debug('cache path is: ' + str(path))
      if not path.exists():
          logging.debug('cache file does not exist')
          return None
      if sys.platform == 'win32':
          try:
              copy_path = get_data_path() / 'data_2'
              subprocess.check_output(f'powershell.exe -Command "Copy-Item \'{path}\' \'{copy_path}\'"', shell=True)
              return copy_path
          except (FileNotFoundError, subprocess.CalledProcessError, OSError):
              logging.error('Could not create copy of cache file')
              return None
      else:
          return path
  \<close>
  A \<^verbatim>\<open>None\<close> and an empty \<^verbatim>\<open>str\<close> are false, a \<^verbatim>\<open>Path\<close> is always true.
\<close>

fun truthy :: "pyval option \<Rightarrow> bool" where
  "truthy None = False"
| "truthy (Some (PStr s)) = (s \<noteq> [])"
| "truthy (Some (PPath p)) = True"

definition copy_command :: "platform \<Rightarrow> path \<Rightarrow> path \<Rightarrow> string" where
  "copy_command pf src dst =
     ''powershell.exe -Command \"Copy-Item '' @ [CHR 0x27] @ path_str pf src @ [CHR 0x27] @ '' ''
       @ [CHR 0x27] @ path_str pf dst @ [CHR 0x27] @ ''\"''"

definition get_cache_path :: "world \<Rightarrow> path option run" where
  "get_cache_path w =
     bind_run (get_game_path w) (\<lambda>game_path.
       case game_path of
         None \<Rightarrow> return_run None
       | Some gp \<Rightarrow>
         if \<not> truthy game_path then return_run None
         else
         bind_run (get_web_cache_path w gp) (\<lambda>web_cache_path.
           case web_cache_path of
             None \<Rightarrow>
               bind_run (logging DEBUG ''could not find latest webCaches subfolder'')
                 (\<lambda>_. return_run None)
           | Some wcp \<Rightarrow>
               let path = joinpath wcp [''Cache'', ''Cache_Data'', ''data_2''] in
               bind_run (logging DEBUG (''cache path is: '' @ path_str (sys_platform w) path)) (\<lambda>_.
                 if \<not> path_exists w path
                 then bind_run (logging DEBUG ''cache file does not exist'') (\<lambda>_. return_run None)
                 else if sys_platform w = Win32
                 then try_except
                        (bind_run (get_data_path w) (\<lambda>data_path.
                           let copy_path = joinpath data_path [''data_2''];
                               cmd = copy_command (sys_platform w) path copy_path
                           in bind_run (emit (Shell cmd)) (\<lambda>_.
                              bind_run (lift_opt (check_output w cmd)) (\<lambda>_.
                              return_run (Some copy_path)))))
                        (\<lambda>e. e = CalledProcessError \<or> is_OSError e)
                        (bind_run (logging ERROR ''Could not create copy of cache file'')
                           (\<lambda>_. return_run None))
                 else return_run (Some path))))"

section \<open>The port\<close>

text \<open>
  \<^verbatim>\<open>
  def is_port_in_use(port):
      with socket.socket(socket.AF_INET, socket.SOCK_STREAM) as s:
          try:
              s.bind(('localhost', port))
              return False
          except OSError:
              return True
  \<close>
\<close>

definition is_port_in_use :: "world \<Rightarrow> nat \<Rightarrow> bool run" where
  "is_port_in_use w port =
     try_except
       (bind_run (emit (SockBind port)) (\<lambda>_.
        bind_run (lift_opt (sock_bind w port)) (\<lambda>_. return_run False)))
       is_OSError
       (return_run True)"

text \<open>
  \<^verbatim>\<open>
  def get_usable_port():
      for port in range(6193, 6193 + 10):
          if not is_port_in_use(port):
              return port
          # check if warp journal is already running on this port
          try:
              with urlopen(f'http://localhost:{port}/warp-journal', timeout=0.1) as _:
                  return port
              panic('Warp Journal is already running.')
          except (URLError, HTTPError):
              continue
      panic('No suitable port found.')
  \<close>
  The function returns a port, or \<^verbatim>\<open>None\<close> were it to fall off its end. The body of
  the \<^verbatim>\<open>try\<close> is the \<^verbatim>\<open>with\<close> statement followed by the call of \<^verbatim>\<open>panic\<close>.
\<close>

definition candidate_ports :: "nat list" where
  "candidate_ports = [6193 ..< 6193 + 10]"

definition with_urlopen :: "world \<Rightarrow> nat \<Rightarrow> nat option completion run" where
  "with_urlopen w port =
     bind_run (emit (UrlOpen port)) (\<lambda>_.
     bind_run (lift_opt (urlopen w port)) (\<lambda>_.
     return_run (Returns (Some port))))"

definition probe :: "world \<Rightarrow> nat \<Rightarrow> nat option completion run" where
  "probe w port =
     try_except
       (seq (with_urlopen w port)
            (bind_run (panic w ''Warp Journal is already running.'') (\<lambda>_. return_run Fallthrough)))
       is_URLError
       (return_run Fallthrough)"

definition try_port :: "world \<Rightarrow> nat \<Rightarrow> nat option completion run" where
  "try_port w port =
     seq (bind_run (is_port_in_use w port) (\<lambda>in_use.
            if \<not> in_use then return_run (Returns (Some port)) else return_run Fallthrough))
         (probe w port)"

fun scan_ports :: "world \<Rightarrow> nat list \<Rightarrow> nat option completion run" where
  "scan_ports w [] = return_run Fallthrough"
| "scan_ports w (port # ports) = seq (try_port w port) (scan_ports w ports)"

definition get_usable_port :: "world \<Rightarrow> nat option run" where
  "get_usable_port w =
     body (seq (scan_ports w candidate_ports)
               (bind_run (panic w ''No suitable port found.'') (\<lambda>_. return_run Fallthrough)))"

section \<open>Example machines\<close>

text \<open>
  Concrete worlds on which the theorems below are instantiated. \<open>posix_path\<close> is
  \<^verbatim>\<open>Path(s)\<close> in the POSIX flavour: the string is split at slashes, empty components
  and single dots are dropped; the anchor is the leading slash (both slashes when there
  are exactly two). \<open>bare_world\<close> is a Linux machine with an empty environment
  and an empty disk, on which every port is free.
\<close>

definition posix_path :: "string \<Rightarrow> path" where
  "posix_path s =
     PurePath (if take 2 s = ''//'' \<and> take 3 s \<noteq> ''///'' then ''//''
               else if take 1 s = ''/'' then ''/'' else [])
       (filter (\<lambda>x. x \<noteq> [] \<and> x \<noteq> ''.'') (split_on (CHR ''/'') s))"

definition bare_world :: world where
  "bare_world =
     \<lparr> sys_platform = Linux,
       environ = Map.empty,
       pathlib = posix_path,
       home = PurePath ''/'' [''home'', ''trailblazer''],
       path_exists = (\<lambda>p. False),
       path_is_dir = (\<lambda>p. False),
       listdir = (\<lambda>p. Inl FileNotFoundError),
       open_text = (\<lambda>p. Inl FileNotFoundError),
       json_load = (\<lambda>p. Inl FileNotFoundError),
       mkdir = (\<lambda>p. None),
       check_output = (\<lambda>c. None),
       sock_bind = (\<lambda>n. None),
       urlopen = (\<lambda>n. Some URLError),
       import_tkinter = None,
       tk_dialog = (\<lambda>m. None) \<rparr>"

text \<open>
  The web-cache root of a game directory, and the entry names of a listing that are
  directories with a dot in their name.
\<close>

definition web_caches :: "path \<Rightarrow> path" where
  "web_caches game_dir = joinpath game_dir [''StarRail_Data'', ''webCaches'']"

definition version_names :: "world \<Rightarrow> path \<Rightarrow> string list \<Rightarrow> string list" where
  "version_names w dir names =
     filter (\<lambda>n. path_is_dir w (joinpath dir [n]) \<and> CHR ''.'' \<in> set n) names"

definition star_rail :: path where
  "star_rail = PurePath ''/'' [''opt'', ''games'', ''StarRail'']"

text \<open>Two machines whose web-cache root lists the same entries in different orders.\<close>

definition versions_world :: world where
  "versions_world =
     bare_world \<lparr> listdir := (\<lambda>p. Inr [''9.0'', ''Crashpad'', ''10.0'', ''notes.txt'']),
                  path_is_dir := (\<lambda>p. name p \<noteq> ''notes.txt'') \<rparr>"

definition versions_world' :: world where
  "versions_world' =
     bare_world \<lparr> listdir := (\<lambda>p. Inr [''notes.txt'', ''10.0'', ''Crashpad'', ''9.0'']),
                  path_is_dir := (\<lambda>p. name p \<noteq> ''notes.txt'') \<rparr>"

text \<open>
  What a candidate port can be: free (the bind succeeds), in use (the bind raises an
  \<^verbatim>\<open>OSError\<close>), answering the probe, or refusing it with an error that the
  \<^verbatim>\<open>except (URLError, HTTPError)\<close> clause catches. \<open>foreign\<close> is the port that the scan
  passes over: in use, the probe refused with such an error. A listener whose probe ends
  with an error of another class is neither answering nor \<open>foreign\<close>.
\<close>

definition port_free :: "world \<Rightarrow> nat \<Rightarrow> bool" where
  "port_free w p = (sock_bind w p = None)"

definition port_in_use :: "world \<Rightarrow> nat \<Rightarrow> bool" where
  "port_in_use w p = (case sock_bind w p of None \<Rightarrow> False | Some e \<Rightarrow> is_OSError e)"

definition probe_answers :: "world \<Rightarrow> nat \<Rightarrow> bool" where
  "probe_answers w p = (urlopen w p = None)"

definition probe_refused :: "world \<Rightarrow> nat \<Rightarrow> bool" where
  "probe_refused w p = (case urlopen w p of None \<Rightarrow> False | Some e \<Rightarrow> is_URLError e)"

definition foreign :: "world \<Rightarrow> nat \<Rightarrow> bool" where
  "foreign w p = (port_in_use w p \<and> probe_refused w p)"

text \<open>The events of passing over ports held by foreign processes: a bind and a probe each.\<close>

definition skipped_trace :: "nat list \<Rightarrow> event list" where
  "skipped_trace ps = concat (map (\<lambda>q. [SockBind q, UrlOpen q]) ps)"

text \<open>
  Machines for the port scan: the first four candidates held by foreign listeners; the
  first candidate held by an earlier instance of the application; all ten candidates
  held by foreign listeners, with and without an importable \<^verbatim>\<open>tkinter\<close>.
\<close>

definition scenario_world :: world where
  "scenario_world =
     bare_world \<lparr> sock_bind := (\<lambda>n. if 6193 \<le> n \<and> n \<le> 6196 then Some OSError else None) \<rparr>"

definition rerun_world :: world where
  "rerun_world =
     scenario_world \<lparr> sock_bind := (\<lambda>n. if 6193 \<le> n \<and> n \<le> 6197 then Some OSError else None),
                      urlopen := (\<lambda>n. if n = 6197 then None else Some URLError) \<rparr>"

text \<open>
  Listeners that hold a port without being the application. On \<open>stalled_world\<close> the
  first four candidates are held by listeners that accept a connection and never answer,
  so the probe ends with the time-out of reading the response; the fifth is free. On
  \<open>garbled_world\<close> the first candidate is held by a listener that answers with something
  that is no HTTP, the second is free.
\<close>

definition stalled_world :: world where
  "stalled_world =
     scenario_world \<lparr> urlopen := (\<lambda>n. Some TimeoutError) \<rparr>"

definition garbled_world :: world where
  "garbled_world =
     bare_world \<lparr> sock_bind := (\<lambda>n. if n = 6193 then Some OSError else None),
                  urlopen := (\<lambda>n. Some BadStatusLine) \<rparr>"

definition exhausted_world :: world where
  "exhausted_world = bare_world \<lparr> sock_bind := (\<lambda>n. Some OSError) \<rparr>"

definition headless_world :: world where
  "headless_world = exhausted_world \<lparr> import_tkinter := Some ImportError \<rparr>"

text \<open>
  A Windows machine whose \<^verbatim>\<open>Player.log\<close> has one line that does not match and then the
  line that names the game directory. \<open>windows_path\<close> is \<^verbatim>\<open>Path(s)\<close> in the Windows
  flavour for a string that starts with a drive letter: the anchor is the drive with its
  root, the rest is split at slashes and backslashes.
\<close>

definition windows_path :: "string \<Rightarrow> path" where
  "windows_path s =
     PurePath (take 3 s)
       (filter (\<lambda>x. x \<noteq> []) (concat (map (split_on (CHR 0x5C)) (split_on (CHR ''/'') (drop 3 s)))))"

definition user_profile :: string where
  "user_profile = ''C:'' @ [CHR 0x5C] @ ''Users'' @ [CHR 0x5C] @ ''trailblazer''"

definition loading_line :: string where
  "loading_line =
     ''Loading player data from /opt/games/StarRail/StarRail_Data/data.unity3d'' @ [CHR 0x0A]"

definition log_text :: string where
  "log_text = ''Mono path[0] = unknown'' @ [CHR 0x0A] @ loading_line"

definition windows_world :: world where
  "windows_world =
     bare_world \<lparr> sys_platform := Win32,
                  environ := [''USERPROFILE'' \<mapsto> user_profile],
                  pathlib := windows_path,
                  path_exists := (\<lambda>p. name p = ''Player.log''),
                  open_text := (\<lambda>p. Inr log_text) \<rparr>"

text \<open>
  Machines with the override variable: one where the \<^verbatim>\<open>Games\<close> sub-directory exists, one
  where nothing exists at all (not even the override path), and a Windows machine with
  a readable log on which the override is set as well (and has no \<^verbatim>\<open>Games\<close> in it).
\<close>

definition override_world :: world where
  "override_world =
     bare_world \<lparr> environ := [''GAME_PATH'' \<mapsto> ''/mnt/hsr''],
                  path_exists := (\<lambda>p. p = PurePath ''/'' [''mnt'', ''hsr'', ''Games'']) \<rparr>"

definition missing_world :: world where
  "missing_world = bare_world \<lparr> environ := [''GAME_PATH'' \<mapsto> ''/opt/games/StarRail''] \<rparr>"

definition override_windows_world :: world where
  "override_windows_world =
     windows_world \<lparr> environ := [''USERPROFILE'' \<mapsto> user_profile,
                                  ''GAME_PATH'' \<mapsto> ''D:'' @ [CHR 0x5C] @ ''hsr''] \<rparr>"

text \<open>
  A Linux machine whose launcher configuration names a global and a china directory, of
  which only the china one exists.
\<close>

definition launcher_config :: json where
  "launcher_config =
     JObj [(''launcher'', JObj [(''language'', JStr ''en-us'')]),
           (''game'', JObj [(''path'', JObj [(''global'', JStr ''/games/global''),
                                            (''china'', JStr ''/games/china'')])])]"

definition china_world :: world where
  "china_world =
     bare_world \<lparr> path_exists := (\<lambda>p. p = hsr_config_path bare_world \<or> p = PurePath ''/'' [''games'', ''china'']),
                  json_load := (\<lambda>p. Inr launcher_config) \<rparr>"

text \<open>The same machine with the override variable set and a \<^verbatim>\<open>Games\<close> directory.\<close>

definition override_linux_world :: world where
  "override_linux_world =
     china_world \<lparr> environ := [''GAME_PATH'' \<mapsto> ''/mnt/hsr''],
                   path_exists := (\<lambda>p. p = hsr_config_path bare_world \<or> name p = ''Games'') \<rparr>"

section \<open>Properties of the version ordering\<close>

lemma split_on_not_Nil: "split_on d s \<noteq> []"
  by (induction s) (auto split: list.splits)

text \<open>Splitting loses nothing: joining the pieces with the separator gives the string back.\<close>

lemma join_split_on: "join_with [d] (split_on d s) = s"
proof (induction s)
  case Nil
  show ?case by simp
next
  case (Cons c cs)
  obtain u us where sp: "split_on d cs = u # us"
    using split_on_not_Nil [of d cs] by (cases "split_on d cs") auto
  show ?case
  proof (cases "c = d")
    case True
    with Cons sp show ?thesis by simp
  next
    case False
    with Cons sp show ?thesis by (cases us) auto
  qed
qed

lemma split_on_inj: "split_on d s = split_on d t \<Longrightarrow> s = t"
  by (metis join_split_on)

lemma name_joinpath [simp]: "name (joinpath p [n]) = n"
  by (simp add: name_def joinpath_def)

lemma joinpath_inj: "joinpath p [m] = joinpath p [n] \<Longrightarrow> m = n"
  by (simp add: joinpath_def)

lemma last_sort_key_max:
  assumes "xs \<noteq> []"
  shows "last (sort_key f xs) \<in> set xs \<and> (\<forall>x \<in> set xs. f x \<le> f (last (sort_key f xs)))"
proof -
  let ?ys = "sort_key f xs"
  have ne: "?ys \<noteq> []" using assms by (metis length_sort list.size(3) length_0_conv)
  have mem: "last ?ys \<in> set xs" using ne last_in_set [OF ne] by simp
  have srt: "sorted (map f ?ys)" by (rule sorted_sort_key)
  have "f x \<le> f (last ?ys)" if "x \<in> set xs" for x
  proof -
    from that have "x \<in> set ?ys" by simp
    then obtain i where i: "i < length ?ys" "?ys ! i = x" by (metis in_set_conv_nth)
    have "map f ?ys ! i \<le> map f ?ys ! (length ?ys - 1)"
      using srt i(1) by (intro sorted_nth_mono) auto
    then show ?thesis using i ne by (simp add: last_conv_nth)
  qed
  with mem show ?thesis by blast
qed

text \<open>The last element after sorting depends only on the set of elements when the key is injective on it.\<close>

lemma last_sort_key_set:
  assumes "inj_on f (set xs)" and "set xs = set ys" and "xs \<noteq> []"
  shows "last (sort_key f xs) = last (sort_key f ys)"
proof -
  have ys: "ys \<noteq> []" using assms(2,3) by auto
  let ?a = "last (sort_key f xs)" and ?b = "last (sort_key f ys)"
  from last_sort_key_max [OF assms(3), of f] last_sort_key_max [OF ys, of f] assms(2)
  have "?a \<in> set xs" "?b \<in> set xs" "f ?b \<le> f ?a" "f ?a \<le> f ?b" by auto
  then show ?thesis using assms(1) by (meson antisym inj_onD)
qed

section \<open>Laws of runs\<close>

lemma bind_run_Inr: "bind_run (t, Inr x) f = (t @ fst (f x), snd (f x))"
  by (simp add: bind_run_def split: prod.splits)

lemma bind_run_Inl: "bind_run (t, Inl e) f = (t, Inl e)"
  by (simp add: bind_run_def)

lemma bind_run_unit: "bind_run ([], Inr x) f = f x"
  by (simp add: bind_run_def split: prod.splits)

lemmas run_simps =
  return_run_def raise_exn_def emit_def lift_def lift_opt_def logging_def
  bind_run_unit bind_run_Inr bind_run_Inl

section \<open>The newest web-cache directory is the maximum\<close>

lemma version_key_joinpath [simp]: "version_key (joinpath p [n]) = split_on (CHR ''.'') n"
  by (simp add: version_key_def)

lemma filter_entries:
  "filter (\<lambda>p. path_is_dir w p \<and> CHR ''.'' \<in> set (name p)) (map (\<lambda>n. joinpath d [n]) names)
     = map (\<lambda>n. joinpath d [n]) (version_names w d names)"
  by (simp add: version_names_def filter_map comp_def)

lemma get_web_cache_path_eq:
  assumes "listdir w (web_caches gp) = Inr names"
  shows "get_web_cache_path w (PPath gp) =
     (if version_names w (web_caches gp) names = [] then ([], Inr None)
      else ([], Inr (Some (last (sort_key version_key
              (map (\<lambda>n. joinpath (web_caches gp) [n]) (version_names w (web_caches gp) names)))))))"
  using assms
  by (simp add: get_web_cache_path_def truediv_def iterdir_def web_caches_def [symmetric]
        filter_entries Let_def run_simps)

lemma inj_version_key: "inj_on version_key ((\<lambda>n. joinpath d [n]) ` S)"
  by (auto simp: inj_on_def dest: split_on_inj)

text \<open>
  C1. Let the web-cache root of a game directory list \<open>names\<close>, at least one of them a
  directory with a dot in its name. Then \<^verbatim>\<open>get_web_cache_path\<close> returns the entry \<open>m\<close>
  among those whose name, split at the dots, is greatest in the lexicographic order of
  lists of strings; a machine that lists the same entries in any other order returns the
  same entry; and in that order \<^verbatim>\<open>10.0\<close> comes before \<^verbatim>\<open>9.0\<close>.
\<close>

theorem get_web_cache_path_maximum:
  assumes "listdir w (web_caches gp) = Inr names"
    and "listdir w' (web_caches gp) = Inr names'"
    and "set names' = set names"
    and "\<forall>n \<in> set names. path_is_dir w' (joinpath (web_caches gp) [n])
                            = path_is_dir w (joinpath (web_caches gp) [n])"
    and "version_names w (web_caches gp) names \<noteq> []"
  shows "(\<exists>m \<in> set (version_names w (web_caches gp) names).
           get_web_cache_path w (PPath gp) = ([], Inr (Some (joinpath (web_caches gp) [m]))) \<and>
           (\<forall>n \<in> set (version_names w (web_caches gp) names).
               split_on (CHR ''.'') n \<le> split_on (CHR ''.'') m) \<and>
           get_web_cache_path w' (PPath gp) = get_web_cache_path w (PPath gp))
         \<and> split_on (CHR ''.'') ''10.0'' < split_on (CHR ''.'') ''9.0''"
proof -
  let ?d = "web_caches gp"
  let ?vs = "version_names w ?d names" and ?vs' = "version_names w' ?d names'"
  let ?ch = "\<lambda>n. joinpath ?d [n]"
  have sets: "set ?vs' = set ?vs"
    using assms(3,4) by (auto simp: version_names_def)
  have ne: "map ?ch ?vs \<noteq> []" using assms(5) by simp
  have ne': "?vs' \<noteq> []" using sets assms(5) by (metis set_empty)
  from last_sort_key_max [OF ne, of version_key]
  obtain m where m: "m \<in> set ?vs" "last (sort_key version_key (map ?ch ?vs)) = ?ch m"
    and mx: "\<forall>x \<in> set (map ?ch ?vs). version_key x \<le> version_key (?ch m)"
    by auto
  have same: "last (sort_key version_key (map ?ch ?vs')) = last (sort_key version_key (map ?ch ?vs))"
  proof (rule last_sort_key_set)
    show "inj_on version_key (set (map ?ch ?vs'))"
      using inj_version_key [of ?d "set ?vs'"] by simp
    show "set (map ?ch ?vs') = set (map ?ch ?vs)" using sets by simp
    show "map ?ch ?vs' \<noteq> []" using ne' by simp
  qed
  have r: "get_web_cache_path w (PPath gp) = ([], Inr (Some (?ch m)))"
    using get_web_cache_path_eq [OF assms(1)] assms(5) m(2) by simp
  have r': "get_web_cache_path w' (PPath gp) = ([], Inr (Some (?ch m)))"
    using get_web_cache_path_eq [OF assms(2)] ne' m(2) same by simp
  have "\<forall>n \<in> set ?vs. split_on (CHR ''.'') n \<le> split_on (CHR ''.'') m"
    using mx by simp
  moreover have "split_on (CHR ''.'') ''10.0'' < split_on (CHR ''.'') ''9.0''" by simp
  ultimately show ?thesis using m(1) r r' by auto
qed

lemma version_names_example:
  "version_names versions_world (web_caches star_rail) [''9.0'', ''Crashpad'', ''10.0'', ''notes.txt'']
     = [''9.0'', ''10.0'']"
  by (simp add: version_names_def versions_world_def bare_world_def)

theorem get_web_cache_path_maximum_witness:
  "get_web_cache_path versions_world (PPath star_rail)
      = ([], Inr (Some (joinpath (web_caches star_rail) [''9.0'']))) \<and>
   get_web_cache_path versions_world' (PPath star_rail)
      = get_web_cache_path versions_world (PPath star_rail)"
proof -
  let ?names = "[''9.0'', ''Crashpad'', ''10.0'', ''notes.txt'']"
  let ?names' = "[''notes.txt'', ''10.0'', ''Crashpad'', ''9.0'']"
  let ?d = "web_caches star_rail"
  have h1: "listdir versions_world ?d = Inr ?names"
    by (simp add: versions_world_def bare_world_def)
  have h2: "listdir versions_world' ?d = Inr ?names'"
    by (simp add: versions_world'_def bare_world_def)
  have h3: "set ?names' = set ?names" by auto
  have h4: "\<forall>n \<in> set ?names. path_is_dir versions_world' (joinpath ?d [n])
                               = path_is_dir versions_world (joinpath ?d [n])"
    by (simp add: versions_world_def versions_world'_def bare_world_def)
  have h5: "version_names versions_world ?d ?names \<noteq> []"
    by (simp add: version_names_example)
  from get_web_cache_path_maximum [OF h1 h2 h3 h4 h5] obtain m where
     m: "m \<in> set (version_names versions_world ?d ?names)"
     and r: "get_web_cache_path versions_world (PPath star_rail) = ([], Inr (Some (joinpath ?d [m])))"
     and mx: "\<forall>n \<in> set (version_names versions_world ?d ?names).
                 split_on (CHR ''.'') n \<le> split_on (CHR ''.'') m"
     and eq: "get_web_cache_path versions_world' (PPath star_rail)
                = get_web_cache_path versions_world (PPath star_rail)"
    by blast
  from mx have "split_on (CHR ''.'') ''9.0'' \<le> split_on (CHR ''.'') m"
    by (simp add: version_names_example)
  with m have "m = ''9.0''" by (auto simp: version_names_example)
  with r eq show ?thesis by simp
qed

section \<open>The port scan, step by step\<close>

lemma seq_Returns: "seq (t, Inr (Returns v)) s = (t, Inr (Returns v))"
  by (simp add: seq_def run_simps)

lemma seq_Fallthrough: "seq (t, Inr Fallthrough) s = (t @ fst s, snd s)"
  by (simp add: seq_def run_simps)

lemma seq_Inl: "seq (t, Inl e) s = (t, Inl e)"
  by (simp add: seq_def run_simps)

lemma try_except_Inr: "try_except (t, Inr x) c h = (t, Inr x)"
  by (simp add: try_except_def)

lemma try_except_Inl: "try_except (t, Inl e) c h = (if c e then (t @ fst h, snd h) else (t, Inl e))"
  by (simp add: try_except_def split: prod.splits)

lemmas stmt_simps = seq_Returns seq_Fallthrough seq_Inl try_except_Inr try_except_Inl

lemma is_port_in_use_eq:
  "is_port_in_use w p =
     (case sock_bind w p of
        None \<Rightarrow> ([SockBind p], Inr False)
      | Some e \<Rightarrow> if is_OSError e then ([SockBind p], Inr True) else ([SockBind p], Inl e))"
  by (simp add: is_port_in_use_def run_simps stmt_simps split: option.splits)

lemma with_urlopen_eq:
  "with_urlopen w p =
     (case urlopen w p of
        None \<Rightarrow> ([UrlOpen p], Inr (Returns (Some p)))
      | Some e \<Rightarrow> ([UrlOpen p], Inl e))"
  by (simp add: with_urlopen_def run_simps split: option.splits)

lemma probe_eq:
  "probe w p =
     (case urlopen w p of
        None \<Rightarrow> ([UrlOpen p], Inr (Returns (Some p)))
      | Some e \<Rightarrow> if is_URLError e then ([UrlOpen p], Inr Fallthrough) else ([UrlOpen p], Inl e))"
  by (simp add: probe_def with_urlopen_eq run_simps stmt_simps split: option.splits)

lemma try_port_eq:
  "try_port w p =
     (case sock_bind w p of
        None \<Rightarrow> ([SockBind p], Inr (Returns (Some p)))
      | Some e \<Rightarrow>
          if is_OSError e
          then (case urlopen w p of
                  None \<Rightarrow> ([SockBind p, UrlOpen p], Inr (Returns (Some p)))
                | Some e' \<Rightarrow>
                    if is_URLError e' then ([SockBind p, UrlOpen p], Inr Fallthrough)
                    else ([SockBind p, UrlOpen p], Inl e'))
          else ([SockBind p], Inl e))"
  by (simp add: try_port_def is_port_in_use_eq probe_eq run_simps stmt_simps split: option.splits)

lemma try_port_free: "port_free w p \<Longrightarrow> try_port w p = ([SockBind p], Inr (Returns (Some p)))"
  by (simp add: try_port_eq port_free_def)

lemma try_port_reuse:
  "port_in_use w p \<Longrightarrow> probe_answers w p \<Longrightarrow> try_port w p = ([SockBind p, UrlOpen p], Inr (Returns (Some p)))"
  by (auto simp: try_port_eq port_in_use_def probe_answers_def split: option.splits)

lemma try_port_foreign:
  "foreign w p \<Longrightarrow> try_port w p = ([SockBind p, UrlOpen p], Inr Fallthrough)"
  by (auto simp: try_port_eq foreign_def port_in_use_def probe_refused_def split: option.splits)

lemma try_port_Returns:
  "try_port w p = (t, Inr (Returns v)) \<Longrightarrow>
     v = Some p \<and> (port_free w p \<or> port_in_use w p \<and> probe_answers w p)"
  by (auto simp: try_port_eq port_free_def port_in_use_def probe_answers_def split: option.splits if_splits)

lemma try_port_Fallthrough:
  "try_port w p = (t, Inr Fallthrough) \<Longrightarrow> foreign w p"
  by (auto simp: try_port_eq foreign_def port_in_use_def probe_refused_def split: option.splits if_splits)

lemma scan_ports_skip:
  "\<forall>q \<in> set pre. foreign w q \<Longrightarrow>
     scan_ports w (pre @ rest) = (skipped_trace pre @ fst (scan_ports w rest), snd (scan_ports w rest))"
  by (induction pre) (simp_all add: skipped_trace_def return_run_def try_port_foreign stmt_simps)

lemma scan_ports_Returns:
  "scan_ports w ps = (t, Inr (Returns v)) \<Longrightarrow>
     \<exists>pre p post. ps = pre @ p # post \<and> v = Some p \<and> (\<forall>q \<in> set pre. foreign w q) \<and>
        (port_free w p \<or> port_in_use w p \<and> probe_answers w p)"
proof (induction ps arbitrary: t)
  case Nil
  then show ?case by (simp add: return_run_def)
next
  case (Cons a ps)
  obtain t1 r1 where tp: "try_port w a = (t1, r1)" by (cases "try_port w a")
  show ?case
  proof (cases r1)
    case (Inl e)
    with Cons.prems tp show ?thesis by (simp add: stmt_simps)
  next
    case (Inr c)
    show ?thesis
    proof (cases c)
      case Fallthrough
      with Inr tp have fa: "foreign w a" by (auto dest: try_port_Fallthrough)
      from Cons.prems tp Inr Fallthrough
      have "scan_ports w ps = (fst (scan_ports w ps), Inr (Returns v))"
        by (simp add: stmt_simps prod_eq_iff)
      from Cons.IH [OF this] obtain pre p post where
        "ps = pre @ p # post" "v = Some p" "\<forall>q \<in> set pre. foreign w q"
        "port_free w p \<or> port_in_use w p \<and> probe_answers w p" by blast
      with fa have "a # ps = (a # pre) @ p # post \<and> v = Some p \<and> (\<forall>q \<in> set (a # pre). foreign w q) \<and>
        (port_free w p \<or> port_in_use w p \<and> probe_answers w p)" by simp
      then show ?thesis by blast
    next
      case (Returns u)
      with Cons.prems tp Inr have "u = v" by (simp add: stmt_simps)
      with tp Inr Returns have "v = Some a \<and> (port_free w a \<or> port_in_use w a \<and> probe_answers w a)"
        by (auto dest: try_port_Returns)
      then have "a # ps = [] @ a # ps \<and> v = Some a \<and> (\<forall>q \<in> set []. foreign w q) \<and>
        (port_free w a \<or> port_in_use w a \<and> probe_answers w a)" by simp
      then show ?thesis by blast
    qed
  qed
qed

lemma candidate_ports_eq:
  "candidate_ports = [6193, 6194, 6195, 6196, 6197, 6198, 6199, 6200, 6201, 6202]"
  by (simp add: candidate_ports_def)

lemma body_Returns: "body (t, Inr (Returns v)) = (t, Inr v)"
  by (simp add: body_def run_simps)

lemma get_usable_port_found:
  assumes "candidate_ports = pre @ p # post" and "\<forall>q \<in> set pre. foreign w q"
    and "try_port w p = (t, Inr (Returns (Some p)))"
  shows "get_usable_port w = (skipped_trace pre @ t, Inr (Some p))"
proof -
  have "scan_ports w (pre @ p # post) = (skipped_trace pre @ t, Inr (Returns (Some p)))"
    using scan_ports_skip [OF assms(2), of "p # post"] assms(3) by (simp add: stmt_simps)
  then show ?thesis by (simp add: get_usable_port_def assms(1) stmt_simps body_Returns)
qed


lemma show_error_dialog_eq:
  "show_error_dialog w m =
     (case import_tkinter w of
        Some e \<Rightarrow> if e = ImportError then ([], Inr ()) else ([], Inl e)
      | None \<Rightarrow> (case tk_dialog w m of None \<Rightarrow> ([Dialog m], Inr ()) | Some e \<Rightarrow> ([], Inl e)))"
  by (simp add: show_error_dialog_def run_simps stmt_simps split: option.splits)

lemma panic_eq:
  "panic w m =
     (case show_error_dialog w m of
        (t, Inl e) \<Rightarrow> (Log ERROR m # t, Inl e)
      | (t, Inr u) \<Rightarrow> (Log ERROR m # t @ [Log INFO ''Quitting''], Inl (SystemExit 1)))"
  by (simp add: panic_def run_simps split: prod.splits sum.splits)

lemma panic_raises: "\<exists>t e. panic w m = (Log ERROR m # t, Inl e)"
  by (simp add: panic_eq split: prod.splits sum.splits)

lemma panic_events: "set (fst (panic w m)) \<subseteq> {Log ERROR m, Dialog m, Log INFO ''Quitting''}"
  by (auto simp: panic_eq show_error_dialog_eq split: prod.splits sum.splits option.splits if_splits)

lemma try_port_events: "set (fst (try_port w p)) \<subseteq> {SockBind p, UrlOpen p}"
  by (auto simp: try_port_eq split: option.splits if_splits)

lemma seq_events: "set (fst (seq s1 s2)) \<subseteq> set (fst s1) \<union> set (fst s2)"
  by (cases s1; cases "snd s1"; cases s2) (auto simp: seq_def run_simps split: completion.splits)

lemma scan_ports_events: "set (fst (scan_ports w ps)) \<subseteq> SockBind ` set ps \<union> UrlOpen ` set ps"
proof (induction ps)
  case Nil
  show ?case by (simp add: return_run_def)
next
  case (Cons a ps)
  have "set (fst (scan_ports w (a # ps))) \<subseteq> set (fst (try_port w a)) \<union> set (fst (scan_ports w ps))"
    by (simp add: seq_events)
  with Cons try_port_events [of w a] show ?case by auto
qed

lemma body_events: "fst (body s) = fst s"
  by (cases s; cases "snd s") (auto simp: body_def run_simps split: completion.splits)

lemma bind_events: "set (fst (bind_run m f)) \<subseteq> set (fst m) \<union> (\<Union>x. set (fst (f x)))"
  by (cases m; cases "snd m") (auto simp: run_simps)

lemma get_usable_port_events:
  "set (fst (get_usable_port w)) \<subseteq>
     SockBind ` set candidate_ports \<union> UrlOpen ` set candidate_ports
       \<union> {Log ERROR ''No suitable port found.'', Dialog ''No suitable port found.'', Log INFO ''Quitting''}"
proof -
  let ?p = "bind_run (panic w ''No suitable port found.'')
              (\<lambda>_. return_run (Fallthrough :: nat option completion))"
  have "set (fst ?p) \<subseteq> set (fst (panic w ''No suitable port found.''))"
    using bind_events [of "panic w ''No suitable port found.''"
                          "\<lambda>_. return_run (Fallthrough :: nat option completion)"]
    by (simp add: return_run_def)
  then have "set (fst ?p) \<subseteq> {Log ERROR ''No suitable port found.'', Dialog ''No suitable port found.'', Log INFO ''Quitting''}"
    using panic_events by blast
  moreover have "set (fst (get_usable_port w)) \<subseteq> set (fst (scan_ports w candidate_ports)) \<union> set (fst ?p)"
    unfolding get_usable_port_def body_events by (rule seq_events)
  ultimately show ?thesis using scan_ports_events [of w candidate_ports] by blast
qed

lemma get_usable_port_Inr:
  assumes "get_usable_port w = (t, Inr v)"
  shows "scan_ports w candidate_ports = (t, Inr (Returns v))"
proof -
  obtain t1 r1 where sp: "scan_ports w candidate_ports = (t1, r1)" by (cases "scan_ports w candidate_ports")
  obtain t2 e2 where pn: "panic w ''No suitable port found.'' = (t2, Inl e2)"
    using panic_raises by blast
  show ?thesis
  proof (cases r1)
    case (Inl e)
    with assms sp show ?thesis by (simp add: get_usable_port_def stmt_simps body_def run_simps)
  next
    case (Inr c)
    with assms sp pn show ?thesis
      by (cases c) (simp_all add: get_usable_port_def stmt_simps body_def run_simps)
  qed
qed

lemma get_usable_port_exhausted_eq:
  assumes "\<forall>q \<in> set candidate_ports. foreign w q"
    and pn: "panic w ''No suitable port found.'' = (t, Inl e)"
  shows "get_usable_port w = (skipped_trace candidate_ports @ t, Inl e)"
proof -
  have "scan_ports w (candidate_ports @ []) = (skipped_trace candidate_ports, Inr Fallthrough)"
    using scan_ports_skip [OF assms(1), of "[]"] by (simp add: return_run_def)
  then show ?thesis
    by (simp add: get_usable_port_def stmt_simps body_def run_simps pn)
qed

lemma sorted_split_less:
  fixes r :: nat
  assumes "sorted (pre @ r # post)" and "q \<in> set (pre @ r # post)" and "q < r"
  shows "q \<in> set pre"
  using assms by (auto simp: sorted_append)

lemma sorted_candidate_ports: "sorted candidate_ports"
  by (simp add: candidate_ports_def)

lemma distinct_candidate_ports: "distinct candidate_ports"
  by (simp add: candidate_ports_def)

lemma foreign_port_in_use: "foreign w q \<Longrightarrow> \<not> port_free w q"
  by (auto simp: foreign_def port_in_use_def port_free_def split: option.splits)

text \<open>
  The scan as long as every probe error is of a class that the \<^verbatim>\<open>except\<close> clause
  catches. \<^verbatim>\<open>get_usable_port\<close> walks through the ten ports 6193 to 6202 in increasing
  order. When every candidate before \<open>p\<close> is in use and refuses the probe with
  \<^verbatim>\<open>URLError\<close> or \<^verbatim>\<open>HTTPError\<close>, and the bind on \<open>p\<close> succeeds, it returns \<open>p\<close>, having
  tried to bind exactly the candidates up to \<open>p\<close>, in order; and the port it returns is
  never beyond a free candidate.
\<close>

theorem get_usable_port_first_free:
  "candidate_ports = [6193, 6194, 6195, 6196, 6197, 6198, 6199, 6200, 6201, 6202] \<and>
   (candidate_ports = pre @ p # post \<and> (\<forall>q \<in> set pre. foreign w q) \<and> port_free w p \<longrightarrow>
      get_usable_port w = (skipped_trace pre @ [SockBind p], Inr (Some p))) \<and>
   (snd (get_usable_port w) = Inr (Some r) \<longrightarrow>
      r \<in> set candidate_ports \<and> (\<forall>q \<in> set candidate_ports. q < r \<longrightarrow> \<not> port_free w q)) \<and>
   (foreign w 6193 \<and> foreign w 6194 \<and> foreign w 6195 \<and> foreign w 6196 \<and> port_free w 6197 \<longrightarrow>
      snd (get_usable_port w) = Inr (Some 6197))"
proof -
  have found: "get_usable_port w = (skipped_trace pre @ [SockBind p], Inr (Some p))"
    if "candidate_ports = pre @ p # post" "\<forall>q \<in> set pre. foreign w q" "port_free w p" for pre p post
    using that by (intro get_usable_port_found) (simp_all add: try_port_free)
  have inv: "r \<in> set candidate_ports \<and> (\<forall>q \<in> set candidate_ports. q < r \<longrightarrow> \<not> port_free w q)"
    if "snd (get_usable_port w) = Inr (Some r)"
  proof -
    from that have "get_usable_port w = (fst (get_usable_port w), Inr (Some r))"
      by (simp add: prod_eq_iff)
    from scan_ports_Returns [OF get_usable_port_Inr [OF this]]
    obtain pre p post where sp: "candidate_ports = pre @ p # post" "Some r = Some p"
      "\<forall>q \<in> set pre. foreign w q" by blast
    then have cp: "candidate_ports = pre @ r # post" by simp
    have "\<not> port_free w q" if "q \<in> set candidate_ports" "q < r" for q
    proof -
      have "q \<in> set pre" using sorted_candidate_ports that unfolding cp by (rule sorted_split_less)
      with sp(3) show ?thesis by (simp add: foreign_port_in_use)
    qed
    moreover have "r \<in> set candidate_ports" by (simp add: cp)
    ultimately show ?thesis by blast
  qed
  have scen: "snd (get_usable_port w) = Inr (Some 6197)"
    if "foreign w 6193 \<and> foreign w 6194 \<and> foreign w 6195 \<and> foreign w 6196 \<and> port_free w 6197"
  proof -
    have "get_usable_port w = (skipped_trace [6193, 6194, 6195, 6196] @ [SockBind 6197], Inr (Some 6197))"
      using that by (intro found [where post = "[6198, 6199, 6200, 6201, 6202]"]) (simp_all add: candidate_ports_eq)
    then show ?thesis by simp
  qed
  from found inv scen candidate_ports_eq show ?thesis by blast
qed

theorem get_usable_port_first_free_witness:
  "get_usable_port scenario_world =
     ([SockBind 6193, UrlOpen 6193, SockBind 6194, UrlOpen 6194, SockBind 6195, UrlOpen 6195,
       SockBind 6196, UrlOpen 6196, SockBind 6197], Inr (Some 6197))"
proof -
  have f: "\<forall>q \<in> set [6193, 6194, 6195, 6196]. foreign scenario_world q"
    by (simp add: foreign_def port_in_use_def probe_refused_def scenario_world_def bare_world_def)
  have p: "port_free scenario_world 6197"
    by (simp add: port_free_def scenario_world_def bare_world_def)
  have c: "candidate_ports = [6193, 6194, 6195, 6196] @ 6197 # [6198, 6199, 6200, 6201, 6202]"
    by (simp add: candidate_ports_def)
  from get_usable_port_first_free [of "[6193, 6194, 6195, 6196]" 6197 "[6198, 6199, 6200, 6201, 6202]" scenario_world]
    f p c
  show ?thesis by (simp add: skipped_trace_def)
qed

section \<open>Probing and reuse\<close>

lemma foreign_cong:
  "sock_bind w' q = sock_bind w q \<Longrightarrow> urlopen w' q = urlopen w q \<Longrightarrow> foreign w' q = foreign w q"
  by (simp add: foreign_def port_in_use_def probe_refused_def)

text \<open>
  Reuse and continuation under caught errors. When the scan reaches a candidate \<open>p\<close>
  whose bind fails and the probe of \<^verbatim>\<open>/warp-journal\<close> on \<open>p\<close> succeeds,
  \<^verbatim>\<open>get_usable_port\<close> returns \<open>p\<close>. When the probe raises \<^verbatim>\<open>URLError\<close> or
  \<^verbatim>\<open>HTTPError\<close>, the scan goes on with the next candidate. And a second run returns the
  port of the first: if a run returned \<open>r\<close> and afterwards \<open>r\<close> is in use and answers the
  probe, everything else being as before, the next run returns \<open>r\<close> again.
\<close>

theorem get_usable_port_probe:
  "(candidate_ports = pre @ p # post \<and> (\<forall>q \<in> set pre. foreign w q) \<and>
      port_in_use w p \<and> probe_answers w p \<longrightarrow>
      get_usable_port w = (skipped_trace pre @ [SockBind p, UrlOpen p], Inr (Some p))) \<and>
   (port_in_use w p \<and> probe_refused w p \<longrightarrow>
      scan_ports w (p # post)
        = ([SockBind p, UrlOpen p] @ fst (scan_ports w post), snd (scan_ports w post))) \<and>
   (snd (get_usable_port w) = Inr (Some r) \<and> port_in_use w' r \<and> probe_answers w' r \<and>
      (\<forall>q. q \<noteq> r \<longrightarrow> sock_bind w' q = sock_bind w q \<and> urlopen w' q = urlopen w q) \<longrightarrow>
      snd (get_usable_port w') = Inr (Some r))"
proof -
  have reuse: "get_usable_port w = (skipped_trace pre @ [SockBind p, UrlOpen p], Inr (Some p))"
    if "candidate_ports = pre @ p # post" "\<forall>q \<in> set pre. foreign w q"
       "port_in_use w p" "probe_answers w p"
    using that by (intro get_usable_port_found) (simp_all add: try_port_reuse)
  have cont: "scan_ports w (p # post)
        = ([SockBind p, UrlOpen p] @ fst (scan_ports w post), snd (scan_ports w post))"
    if "port_in_use w p" "probe_refused w p"
  proof -
    from that have "foreign w p" by (simp add: foreign_def)
    then show ?thesis by (simp add: try_port_foreign stmt_simps)
  qed
  have again: "snd (get_usable_port w') = Inr (Some r)"
    if ret: "snd (get_usable_port w) = Inr (Some r)" and use: "port_in_use w' r" "probe_answers w' r"
      and same: "\<forall>q. q \<noteq> r \<longrightarrow> sock_bind w' q = sock_bind w q \<and> urlopen w' q = urlopen w q"
  proof -
    from ret have "get_usable_port w = (fst (get_usable_port w), Inr (Some r))"
      by (simp add: prod_eq_iff)
    from scan_ports_Returns [OF get_usable_port_Inr [OF this]]
    obtain pre0 p0 post0 where sp: "candidate_ports = pre0 @ p0 # post0" "Some r = Some p0"
      "\<forall>q \<in> set pre0. foreign w q" by blast
    then have cp: "candidate_ports = pre0 @ r # post0" by simp
    have "r \<notin> set pre0" using distinct_candidate_ports unfolding cp by simp
    then have "\<forall>q \<in> set pre0. foreign w' q"
      using sp(3) same by (metis foreign_cong)
    from get_usable_port_found [OF cp this try_port_reuse [OF use]]
    show ?thesis by simp
  qed
  from reuse cont again show ?thesis by blast
qed

theorem get_usable_port_probe_witness:
  "get_usable_port rerun_world =
     ([SockBind 6193, UrlOpen 6193, SockBind 6194, UrlOpen 6194, SockBind 6195, UrlOpen 6195,
       SockBind 6196, UrlOpen 6196, SockBind 6197, UrlOpen 6197], Inr (Some 6197))"
proof -
  have f: "\<forall>q \<in> set [6193, 6194, 6195, 6196]. foreign rerun_world q"
    by (simp add: foreign_def port_in_use_def probe_refused_def rerun_world_def scenario_world_def
          bare_world_def)
  have u: "port_in_use rerun_world 6197" "probe_answers rerun_world 6197"
    by (simp_all add: port_in_use_def probe_answers_def rerun_world_def scenario_world_def
          bare_world_def)
  have c: "candidate_ports = [6193, 6194, 6195, 6196] @ 6197 # [6198, 6199, 6200, 6201, 6202]"
    by (simp add: candidate_ports_def)
  from get_usable_port_probe
         [of "[6193, 6194, 6195, 6196]" 6197 "[6198, 6199, 6200, 6201, 6202]" rerun_world]
    f u c
  show ?thesis by (simp add: skipped_trace_def)
qed

section \<open>Probe errors that escape\<close>

lemma try_port_raises:
  "port_in_use w p \<Longrightarrow> urlopen w p = Some e \<Longrightarrow> \<not> is_URLError e \<Longrightarrow>
     try_port w p = ([SockBind p, UrlOpen p], Inl e)"
  by (auto simp: try_port_eq port_in_use_def split: option.splits)

lemma get_usable_port_raises:
  assumes "candidate_ports = pre @ p # post" and "\<forall>q \<in> set pre. foreign w q"
    and "try_port w p = (t, Inl e)"
  shows "get_usable_port w = (skipped_trace pre @ t, Inl e)"
proof -
  have "scan_ports w (pre @ p # post) = (skipped_trace pre @ t, Inl e)"
    using scan_ports_skip [OF assms(2), of "p # post"] assms(3) by (simp add: stmt_simps)
  then show ?thesis by (simp add: get_usable_port_def assms(1) stmt_simps body_def run_simps)
qed

lemma get_usable_port_first_raises:
  assumes "port_in_use w 6193" and "urlopen w 6193 = Some e" and "\<not> is_URLError e"
  shows "get_usable_port w = ([SockBind 6193, UrlOpen 6193], Inl e)"
proof -
  have c: "candidate_ports = [] @ 6193 # [6194, 6195, 6196, 6197, 6198, 6199, 6200, 6201, 6202]"
    by (simp add: candidate_ports_eq)
  have f: "\<forall>q \<in> set []. foreign w q" by simp
  from get_usable_port_raises [OF c f try_port_raises [OF assms]]
  show ?thesis by (simp add: skipped_trace_def)
qed

text \<open>
  C2. The scan is meant to pass over candidates held by foreign listeners and to return
  the first free one: with 6193 to 6196 held by listeners that do not answer the probe and
  6197 free, 6197. The \<^verbatim>\<open>except\<close> clause names \<^verbatim>\<open>URLError\<close> and \<^verbatim>\<open>HTTPError\<close> only, so
  this is what happens when the connection is refused, and not when a listener accepts
  the connection and stays silent: the time-out of reading the response is no
  \<^verbatim>\<open>URLError\<close>, nothing catches it, and \<^verbatim>\<open>get_usable_port\<close> ends with \<^verbatim>\<open>TimeoutError\<close>
  at the first candidate, after one bind and one probe, instead of returning 6197.
\<close>

theorem get_usable_port_stalled_listeners:
  "port_in_use stalled_world 6193 \<and> port_in_use stalled_world 6194 \<and>
   port_in_use stalled_world 6195 \<and> port_in_use stalled_world 6196 \<and>
   \<not> probe_answers stalled_world 6193 \<and> \<not> probe_answers stalled_world 6194 \<and>
   \<not> probe_answers stalled_world 6195 \<and> \<not> probe_answers stalled_world 6196 \<and>
   port_free stalled_world 6197 \<and>
   get_usable_port stalled_world = ([SockBind 6193, UrlOpen 6193], Inl TimeoutError)"
proof -
  have u: "port_in_use stalled_world 6193" "port_in_use stalled_world 6194"
    "port_in_use stalled_world 6195" "port_in_use stalled_world 6196"
    by (simp_all add: port_in_use_def stalled_world_def scenario_world_def bare_world_def)
  have n: "\<not> probe_answers stalled_world 6193" "\<not> probe_answers stalled_world 6194"
    "\<not> probe_answers stalled_world 6195" "\<not> probe_answers stalled_world 6196"
    by (simp_all add: probe_answers_def stalled_world_def)
  have f: "port_free stalled_world 6197"
    by (simp add: port_free_def stalled_world_def scenario_world_def bare_world_def)
  have o: "urlopen stalled_world 6193 = Some TimeoutError"
    by (simp add: stalled_world_def)
  have "get_usable_port stalled_world = ([SockBind 6193, UrlOpen 6193], Inl TimeoutError)"
    by (rule get_usable_port_first_raises [OF u(1) o]) simp
  with u n f show ?thesis by simp
qed

text \<open>
  C3. A probe that fails is meant to let the scan continue. It does so for \<^verbatim>\<open>URLError\<close>
  and \<^verbatim>\<open>HTTPError\<close>; a protocol error (\<^verbatim>\<open>BadStatusLine\<close>), a read time-out or a reset
  connection are not caught: with the first candidate held by such a listener and the
  second free, the run ends with that exception at the first candidate and the second is
  never tried.
\<close>

theorem get_usable_port_probe_error_escapes:
  "port_in_use garbled_world 6193 \<and> \<not> probe_answers garbled_world 6193 \<and>
   port_free garbled_world 6194 \<and>
   try_port garbled_world 6193 = ([SockBind 6193, UrlOpen 6193], Inl BadStatusLine) \<and>
   get_usable_port garbled_world = ([SockBind 6193, UrlOpen 6193], Inl BadStatusLine) \<and>
   get_usable_port (garbled_world \<lparr> urlopen := (\<lambda>n. Some TimeoutError) \<rparr>)
     = ([SockBind 6193, UrlOpen 6193], Inl TimeoutError) \<and>
   get_usable_port (garbled_world \<lparr> urlopen := (\<lambda>n. Some ConnectionResetError) \<rparr>)
     = ([SockBind 6193, UrlOpen 6193], Inl ConnectionResetError)"
proof -
  have u: "port_in_use garbled_world 6193"
    by (simp add: port_in_use_def garbled_world_def bare_world_def)
  have n: "\<not> probe_answers garbled_world 6193"
    by (simp add: probe_answers_def garbled_world_def)
  have f: "port_free garbled_world 6194"
    by (simp add: port_free_def garbled_world_def bare_world_def)
  have o: "urlopen garbled_world 6193 = Some BadStatusLine"
    by (simp add: garbled_world_def)
  have t: "try_port garbled_world 6193 = ([SockBind 6193, UrlOpen 6193], Inl BadStatusLine)"
    by (rule try_port_raises [OF u o]) simp
  have g: "get_usable_port garbled_world = ([SockBind 6193, UrlOpen 6193], Inl BadStatusLine)"
    by (rule get_usable_port_first_raises [OF u o]) simp
  have g2: "get_usable_port (garbled_world \<lparr> urlopen := (\<lambda>n. Some TimeoutError) \<rparr>)
     = ([SockBind 6193, UrlOpen 6193], Inl TimeoutError)"
    by (rule get_usable_port_first_raises)
       (simp_all add: port_in_use_def garbled_world_def bare_world_def)
  have g3: "get_usable_port (garbled_world \<lparr> urlopen := (\<lambda>n. Some ConnectionResetError) \<rparr>)
     = ([SockBind 6193, UrlOpen 6193], Inl ConnectionResetError)"
    by (rule get_usable_port_first_raises)
       (simp_all add: port_in_use_def garbled_world_def bare_world_def)
  from u n f t g g2 g3 show ?thesis by simp
qed

section \<open>Exhaustion\<close>

lemma exhausted_foreign: "\<forall>q \<in> set candidate_ports. foreign exhausted_world q"
  by (simp add: foreign_def port_in_use_def probe_refused_def exhausted_world_def bare_world_def)

lemma headless_foreign: "\<forall>q \<in> set candidate_ports. foreign headless_world q"
  by (simp add: foreign_def port_in_use_def probe_refused_def headless_world_def
        exhausted_world_def bare_world_def)

lemma get_usable_port_never_returns:
  assumes "\<forall>q \<in> set candidate_ports. port_in_use w q \<and> \<not> probe_answers w q"
  shows "\<exists>t e. get_usable_port w = (t, Inl e)"
proof (cases "snd (get_usable_port w)")
  case (Inl e)
  then have "get_usable_port w = (fst (get_usable_port w), Inl e)" by (simp add: prod_eq_iff)
  then show ?thesis by blast
next
  case (Inr v)
  then have "get_usable_port w = (fst (get_usable_port w), Inr v)" by (simp add: prod_eq_iff)
  from scan_ports_Returns [OF get_usable_port_Inr [OF this]]
  obtain pre p post where cp: "candidate_ports = pre @ p # post"
    and fr: "port_free w p \<or> port_in_use w p \<and> probe_answers w p" by blast
  have "p \<in> set candidate_ports" by (simp add: cp)
  with assms have "port_in_use w p" "\<not> probe_answers w p" by blast+
  with fr have False
    by (auto simp: port_free_def port_in_use_def)
  then show ?thesis ..
qed

text \<open>
  C4, amended. When all ten candidates are in use and no probe succeeds,
  \<^verbatim>\<open>get_usable_port\<close> never returns a value. When moreover every probe fails with
  \<^verbatim>\<open>URLError\<close> or \<^verbatim>\<open>HTTPError\<close>, it makes one pass over the candidates (one bind and
  one probe each, in order), logs \<^verbatim>\<open>No suitable port found.\<close> at error level and calls
  \<^verbatim>\<open>show_error_dialog\<close>. If importing \<^verbatim>\<open>tkinter\<close> raises \<^verbatim>\<open>ImportError\<close>, no dialog is
  shown; if \<^verbatim>\<open>tkinter\<close> is imported and the Tk calls do not raise, the dialog is shown; in
  both cases it then logs \<^verbatim>\<open>Quitting\<close> and raises \<^verbatim>\<open>SystemExit(1)\<close>. Nothing is said
  here of probes that fail with an error of another class, or of Tk calls that raise.
\<close>

theorem get_usable_port_exhausted:
  "((\<forall>q \<in> set candidate_ports. port_in_use w q \<and> \<not> probe_answers w q) \<longrightarrow>
      (\<exists>t e. get_usable_port w = (t, Inl e))) \<and>
   ((\<forall>q \<in> set candidate_ports. foreign w q) \<longrightarrow>
      (\<exists>t e. get_usable_port w
             = (skipped_trace candidate_ports @ Log ERROR ''No suitable port found.'' # t, Inl e)) \<and>
      (import_tkinter w = Some ImportError \<longrightarrow>
         get_usable_port w
           = (skipped_trace candidate_ports
                @ [Log ERROR ''No suitable port found.'', Log INFO ''Quitting''],
              Inl (SystemExit 1))) \<and>
      (import_tkinter w = None \<and> tk_dialog w ''No suitable port found.'' = None \<longrightarrow>
         get_usable_port w
           = (skipped_trace candidate_ports
                @ [Log ERROR ''No suitable port found.'', Dialog ''No suitable port found.'',
                   Log INFO ''Quitting''],
              Inl (SystemExit 1))))"
proof -
  let ?m = "''No suitable port found.''"
  have z: "\<exists>t e. get_usable_port w = (t, Inl e)"
    if "\<forall>q \<in> set candidate_ports. port_in_use w q \<and> \<not> probe_answers w q"
    using that by (rule get_usable_port_never_returns)
  have a: "\<exists>t e. get_usable_port w = (skipped_trace candidate_ports @ Log ERROR ?m # t, Inl e)"
    if f: "\<forall>q \<in> set candidate_ports. foreign w q"
  proof -
    obtain t e where pn: "panic w ?m = (Log ERROR ?m # t, Inl e)"
      using panic_raises by blast
    from get_usable_port_exhausted_eq [OF f pn] show ?thesis by blast
  qed
  have b: "get_usable_port w
             = (skipped_trace candidate_ports @ [Log ERROR ?m, Log INFO ''Quitting''], Inl (SystemExit 1))"
    if f: "\<forall>q \<in> set candidate_ports. foreign w q" and "import_tkinter w = Some ImportError"
  proof -
    have "panic w ?m = ([Log ERROR ?m, Log INFO ''Quitting''], Inl (SystemExit 1))"
      using that(2) by (simp add: panic_eq show_error_dialog_eq)
    from get_usable_port_exhausted_eq [OF f this] show ?thesis .
  qed
  have c: "get_usable_port w
             = (skipped_trace candidate_ports @ [Log ERROR ?m, Dialog ?m, Log INFO ''Quitting''],
                Inl (SystemExit 1))"
    if f: "\<forall>q \<in> set candidate_ports. foreign w q"
      and "import_tkinter w = None \<and> tk_dialog w ?m = None"
  proof -
    have "panic w ?m = ([Log ERROR ?m, Dialog ?m, Log INFO ''Quitting''], Inl (SystemExit 1))"
      using that(2) by (simp add: panic_eq show_error_dialog_eq)
    from get_usable_port_exhausted_eq [OF f this] show ?thesis .
  qed
  from z a b c show ?thesis by blast
qed

theorem get_usable_port_exhausted_witness:
  "get_usable_port exhausted_world =
     ([SockBind 6193, UrlOpen 6193, SockBind 6194, UrlOpen 6194, SockBind 6195, UrlOpen 6195,
       SockBind 6196, UrlOpen 6196, SockBind 6197, UrlOpen 6197, SockBind 6198, UrlOpen 6198,
       SockBind 6199, UrlOpen 6199, SockBind 6200, UrlOpen 6200, SockBind 6201, UrlOpen 6201,
       SockBind 6202, UrlOpen 6202,
       Log ERROR ''No suitable port found.'', Dialog ''No suitable port found.'',
       Log INFO ''Quitting''],
      Inl (SystemExit 1))"
proof -
  have t: "import_tkinter exhausted_world = None \<and> tk_dialog exhausted_world ''No suitable port found.'' = None"
    by (simp add: exhausted_world_def bare_world_def)
  from get_usable_port_exhausted [of exhausted_world] exhausted_foreign t
  show ?thesis by (simp add: skipped_trace_def candidate_ports_eq)
qed

text \<open>
  The claim as stated promises the dialog in every such run. On a machine without
  \<^verbatim>\<open>tkinter\<close> the ten ports are exhausted, the process exits with status 1, and no
  dialog is shown.
\<close>

theorem get_usable_port_no_dialog_counterexample:
  "list_all (foreign headless_world) candidate_ports \<and>
   get_usable_port headless_world =
     ([SockBind 6193, UrlOpen 6193, SockBind 6194, UrlOpen 6194, SockBind 6195, UrlOpen 6195,
       SockBind 6196, UrlOpen 6196, SockBind 6197, UrlOpen 6197, SockBind 6198, UrlOpen 6198,
       SockBind 6199, UrlOpen 6199, SockBind 6200, UrlOpen 6200, SockBind 6201, UrlOpen 6201,
       SockBind 6202, UrlOpen 6202,
       Log ERROR ''No suitable port found.'', Log INFO ''Quitting''],
      Inl (SystemExit 1)) \<and>
   Dialog ''No suitable port found.'' \<notin> set (fst (get_usable_port headless_world))"
proof -
  have p: "panic headless_world ''No suitable port found.''
             = ([Log ERROR ''No suitable port found.'', Log INFO ''Quitting''], Inl (SystemExit 1))"
    by (simp add: panic_eq show_error_dialog_eq headless_world_def)
  have g: "get_usable_port headless_world
             = (skipped_trace candidate_ports @ [Log ERROR ''No suitable port found.'', Log INFO ''Quitting''],
                Inl (SystemExit 1))"
    by (rule get_usable_port_exhausted_eq [OF headless_foreign p])
  have l: "list_all (foreign headless_world) candidate_ports"
    using headless_foreign by (simp add: list_all_iff)
  from g l show ?thesis by (simp add: skipped_trace_def candidate_ports_eq)
qed

section \<open>The dead call\<close>

text \<open>
  C10. The call \<^verbatim>\<open>panic('Warp Journal is already running.')\<close> after the \<^verbatim>\<open>with\<close>
  block is dead code: whatever statement follows the \<^verbatim>\<open>with\<close> block, the two in sequence
  behave as the \<^verbatim>\<open>with\<close> block alone; no run of \<^verbatim>\<open>get_usable_port\<close> logs that message
  or shows it in a dialog; and whenever the probe succeeds the \<^verbatim>\<open>try\<close> statement makes
  the function return the port.
\<close>

theorem already_running_panic_unreachable:
  "seq (with_urlopen w p) s = with_urlopen w p \<and>
   Log ERROR ''Warp Journal is already running.'' \<notin> set (fst (get_usable_port w)) \<and>
   Dialog ''Warp Journal is already running.'' \<notin> set (fst (get_usable_port w)) \<and>
   (probe_answers w p \<longrightarrow> probe w p = ([UrlOpen p], Inr (Returns (Some p)))) \<and>
   (candidate_ports = pre @ p # post \<and> (\<forall>q \<in> set pre. foreign w q) \<and>
      port_in_use w p \<and> probe_answers w p \<longrightarrow> snd (get_usable_port w) = Inr (Some p))"
proof -
  have a: "seq (with_urlopen w p) s = with_urlopen w p"
    by (simp add: with_urlopen_eq stmt_simps split: option.splits)
  have b: "Log ERROR ''Warp Journal is already running.'' \<notin> set (fst (get_usable_port w))"
    using get_usable_port_events [of w] by auto
  have c: "Dialog ''Warp Journal is already running.'' \<notin> set (fst (get_usable_port w))"
    using get_usable_port_events [of w] by auto
  have d: "probe w p = ([UrlOpen p], Inr (Returns (Some p)))" if "probe_answers w p"
    using that by (simp add: probe_eq probe_answers_def)
  have e: "snd (get_usable_port w) = Inr (Some p)"
    if "candidate_ports = pre @ p # post \<and> (\<forall>q \<in> set pre. foreign w q) \<and>
        port_in_use w p \<and> probe_answers w p"
  proof -
    from that have "try_port w p = ([SockBind p, UrlOpen p], Inr (Returns (Some p)))"
      by (simp add: try_port_reuse)
    with that have "get_usable_port w = (skipped_trace pre @ [SockBind p, UrlOpen p], Inr (Some p))"
      by (intro get_usable_port_found [where post = post]) simp_all
    then show ?thesis by simp
  qed
  from a b c d e show ?thesis by blast
qed

theorem already_running_panic_unreachable_witness:
  "probe rerun_world 6197 = ([UrlOpen 6197], Inr (Returns (Some 6197))) \<and>
   snd (get_usable_port rerun_world) = Inr (Some 6197) \<and>
   Log ERROR ''Warp Journal is already running.'' \<notin> set (fst (get_usable_port rerun_world))"
proof -
  have f: "\<forall>q \<in> set [6193, 6194, 6195, 6196]. foreign rerun_world q"
    by (simp add: foreign_def port_in_use_def probe_refused_def rerun_world_def scenario_world_def
          bare_world_def)
  have u: "port_in_use rerun_world 6197" "probe_answers rerun_world 6197"
    by (simp_all add: port_in_use_def probe_answers_def rerun_world_def scenario_world_def
          bare_world_def)
  have c: "candidate_ports = [6193, 6194, 6195, 6196] @ 6197 # [6198, 6199, 6200, 6201, 6202]"
    by (simp add: candidate_ports_def)
  from already_running_panic_unreachable
         [of rerun_world 6197 "return_run Fallthrough" "[6193, 6194, 6195, 6196]"
             "[6198, 6199, 6200, 6201, 6202]"]
    f u c
  show ?thesis by simp
qed

section \<open>The log scan on Windows\<close>

lemma drop_atoms_Lit: "(drop_atoms (map Lit lit) s = Some rest) = (s = lit @ rest)"
proof (induction lit arbitrary: s)
  case Nil
  show ?case by auto
next
  case (Cons a lit)
  then show ?case by (cases s) auto
qed

lemma match_atoms_Lit_append:
  "match_atoms (map Lit lit @ as) s = (\<exists>r. s = lit @ r \<and> match_atoms as r)"
proof (induction lit arbitrary: s)
  case Nil
  show ?case by simp
next
  case (Cons a lit)
  then show ?case by (cases s) auto
qed

lemma match_atoms_AnyChar:
  "match_atoms (AnyChar # as) s = (\<exists>c r. s = c # r \<and> c \<noteq> CHR 0x0A \<and> match_atoms as r)"
  by (cases s) auto

lemma match_atoms_Lit: "match_atoms (map Lit lit) s = (\<exists>b. s = lit @ b)"
  using match_atoms_Lit_append [of lit "[]" s] by simp

lemma match_regex_tail:
  "match_atoms regex_tail s =
     (\<exists>c b. c \<noteq> CHR 0x0A \<and> s = ''/StarRail_Data/data'' @ [c] @ ''unity3d'' @ b)"
  unfolding regex_tail_def match_atoms_Lit_append append_Cons append_Nil match_atoms_AnyChar match_atoms_Lit
  by auto

lemma greedy_group_sound:
  "greedy_group tail s = Some g \<Longrightarrow>
     g \<noteq> [] \<and> CHR 0x0A \<notin> set g \<and> (\<exists>r. s = g @ r \<and> match_atoms tail r)"
proof (induction s arbitrary: g)
  case Nil
  then show ?case by simp
next
  case (Cons c cs)
  show ?case
  proof (cases "greedy_group tail cs")
    case None
    with Cons.prems show ?thesis by (auto split: if_splits)
  next
    case (Some g')
    with Cons.prems have g: "g = c # g'" "c \<noteq> CHR 0x0A" by (auto split: if_splits)
    from Cons.IH [OF Some] g show ?thesis by auto
  qed
qed

lemma greedy_group_complete:
  "g \<noteq> [] \<Longrightarrow> CHR 0x0A \<notin> set g \<Longrightarrow> match_atoms tail r \<Longrightarrow> greedy_group tail (g @ r) \<noteq> None"
proof (induction g)
  case Nil
  then show ?case by simp
next
  case (Cons c g)
  show ?case
  proof (cases "g = []")
    case True
    with Cons.prems show ?thesis by (auto split: option.splits)
  next
    case False
    with Cons have "greedy_group tail (g @ r) \<noteq> None" by simp
    with Cons.prems show ?thesis by (auto split: option.splits)
  qed
qed

lemma regex_match_here_iff:
  "(regex_match_here s \<noteq> None) =
     (\<exists>g c b. g \<noteq> [] \<and> CHR 0x0A \<notin> set g \<and> c \<noteq> CHR 0x0A \<and>
         s = ''Loading player data from '' @ g @ ''/StarRail_Data/data'' @ [c] @ ''unity3d'' @ b)"
  (is "?L = ?R")
proof
  assume ?L
  then obtain rest g where d: "drop_atoms regex_head s = Some rest" and gg: "greedy_group regex_tail rest = Some g"
    by (auto simp: regex_match_here_def split: option.splits)
  from d have s: "s = ''Loading player data from '' @ rest"
    unfolding regex_head_def drop_atoms_Lit .
  from greedy_group_sound [OF gg] obtain r where
    g: "g \<noteq> []" "CHR 0x0A \<notin> set g" "rest = g @ r" "match_atoms regex_tail r" by blast
  from g(4) obtain c b where "c \<noteq> CHR 0x0A" "r = ''/StarRail_Data/data'' @ [c] @ ''unity3d'' @ b"
    unfolding match_regex_tail by blast
  with s g show ?R by blast
next
  assume ?R
  then obtain g c b where g: "g \<noteq> []" "CHR 0x0A \<notin> set g" "c \<noteq> CHR 0x0A"
    and s: "s = ''Loading player data from '' @ (g @ ''/StarRail_Data/data'' @ [c] @ ''unity3d'' @ b)"
    by auto
  have d: "drop_atoms regex_head s = Some (g @ ''/StarRail_Data/data'' @ [c] @ ''unity3d'' @ b)"
    unfolding regex_head_def drop_atoms_Lit by (rule s)
  have "match_atoms regex_tail (''/StarRail_Data/data'' @ [c] @ ''unity3d'' @ b)"
    unfolding match_regex_tail using g(3) by blast
  from greedy_group_complete [OF g(1,2) this] d show ?L
    by (simp add: regex_match_here_def)
qed

lemma regex_match_here_sound:
  assumes "regex_match_here s = Some g"
  shows "g \<noteq> [] \<and> CHR 0x0A \<notin> set g \<and>
     (\<exists>c b. c \<noteq> CHR 0x0A \<and> s = ''Loading player data from '' @ g @ ''/StarRail_Data/data'' @ [c] @ ''unity3d'' @ b)"
proof -
  from assms obtain rest where d: "drop_atoms regex_head s = Some rest" and gg: "greedy_group regex_tail rest = Some g"
    by (auto simp: regex_match_here_def split: option.splits)
  from d have s: "s = ''Loading player data from '' @ rest"
    unfolding regex_head_def drop_atoms_Lit .
  from greedy_group_sound [OF gg] obtain r where
    g: "g \<noteq> []" "CHR 0x0A \<notin> set g" "rest = g @ r" "match_atoms regex_tail r" by blast
  from g(4) obtain c b where "c \<noteq> CHR 0x0A" "r = ''/StarRail_Data/data'' @ [c] @ ''unity3d'' @ b"
    unfolding match_regex_tail by blast
  with s g show ?thesis by blast
qed

lemma regex_search_sound:
  "regex_search l = Some g \<Longrightarrow>
     g \<noteq> [] \<and> CHR 0x0A \<notin> set g \<and>
     (\<exists>a c b. c \<noteq> CHR 0x0A \<and>
        l = a @ ''Loading player data from '' @ g @ ''/StarRail_Data/data'' @ [c] @ ''unity3d'' @ b)"
proof (induction l)
  case Nil
  from regex_match_here_sound [of "[]" g] Nil show ?case by simp
next
  case (Cons x xs)
  show ?case
  proof (cases "regex_match_here (x # xs)")
    case (Some g')
    with Cons.prems have "regex_match_here (x # xs) = Some g" by simp
    from regex_match_here_sound [OF this] show ?thesis by (metis append_Nil)
  next
    case None
    with Cons.prems have "regex_search xs = Some g" by simp
    from Cons.IH [OF this] show ?thesis by (metis append_Cons)
  qed
qed

lemma regex_search_complete:
  "regex_match_here s \<noteq> None \<Longrightarrow> regex_search (a @ s) \<noteq> None"
proof (induction a)
  case Nil
  then show ?case by (cases s) (auto split: option.splits)
next
  case (Cons x xs)
  then show ?case by (auto split: option.splits)
qed

lemma regex_search_iff:
  "(regex_search l \<noteq> None) =
     (\<exists>a g c b. g \<noteq> [] \<and> CHR 0x0A \<notin> set g \<and> c \<noteq> CHR 0x0A \<and>
         l = a @ ''Loading player data from '' @ g @ ''/StarRail_Data/data'' @ [c] @ ''unity3d'' @ b)"
  (is "?L = ?R")
proof
  assume ?L
  then obtain g where "regex_search l = Some g" by auto
  from regex_search_sound [OF this] show ?R by blast
next
  assume ?R
  then obtain a g c b where g: "g \<noteq> []" "CHR 0x0A \<notin> set g" "c \<noteq> CHR 0x0A"
    and l: "l = a @ (''Loading player data from '' @ g @ ''/StarRail_Data/data'' @ [c] @ ''unity3d'' @ b)"
    by auto
  have "regex_match_here (''Loading player data from '' @ g @ ''/StarRail_Data/data'' @ [c] @ ''unity3d'' @ b) \<noteq> None"
    unfolding regex_match_here_iff using g by blast
  from regex_search_complete [OF this] l show ?L by simp
qed

lemma scan_lines_none:
  "\<forall>l \<in> set ls. regex_search l = None \<Longrightarrow> scan_lines ls = ([], Inr Fallthrough)"
  by (induction ls) (simp_all add: return_run_def)

lemma scan_lines_first:
  "\<forall>l \<in> set pre. regex_search l = None \<Longrightarrow> regex_search l = Some g \<Longrightarrow>
     scan_lines (pre @ l # post) = ([], Inr (Returns (Some g)))"
  by (induction pre) (simp_all add: return_run_def)

lemma regex_search_loading_line: "regex_search loading_line = Some ''/opt/games/StarRail''"
  by (simp add: loading_line_def regex_match_here_def regex_head_def regex_tail_def)


lemma get_game_path_windows_open:
  assumes "environ w ''USERPROFILE'' = Some u" and "path_exists w (player_log w u)"
    and "open_text w (player_log w u) = Inr text"
  shows "get_game_path_windows w =
     body (seq (scan_lines (file_lines text))
               (bind_run (logging DEBUG ''game path not found in output_log'')
                  (\<lambda>_. return_run (Returns None))))"
  using assms by (simp add: get_game_path_windows_def Let_def run_simps)

lemma scan_lines_Returns:
  "scan_lines ls = (t, Inr (Returns v)) \<Longrightarrow> t = [] \<and> (\<exists>l \<in> set ls. \<exists>g. v = Some g \<and> regex_search l = Some g)"
  by (induction ls) (auto simp: return_run_def split: option.splits)

lemma scan_lines_shape:
  "scan_lines ls = ([], Inr Fallthrough) \<or> (\<exists>g. g \<noteq> [] \<and> scan_lines ls = ([], Inr (Returns (Some g))))"
proof (induction ls)
  case Nil
  show ?case by (simp add: return_run_def)
next
  case (Cons l ls)
  show ?case
  proof (cases "regex_search l")
    case None
    with Cons show ?thesis by simp
  next
    case (Some g)
    with regex_search_sound [OF Some] show ?thesis by (simp add: return_run_def)
  qed
qed

lemma get_game_path_windows_Some:
  assumes "get_game_path_windows w = (t, Inr (Some s))"
  shows "s \<noteq> []"
proof (cases "environ w ''USERPROFILE''")
  case None
  with assms show ?thesis by (simp add: get_game_path_windows_def run_simps)
next
  case (Some u)
  show ?thesis
  proof (cases "path_exists w (player_log w u)")
    case False
    with Some assms show ?thesis by (simp add: get_game_path_windows_def Let_def run_simps)
  next
    case True
    show ?thesis
    proof (cases "open_text w (player_log w u)")
      case (Inl e)
      with Some True assms show ?thesis
        by (simp add: get_game_path_windows_def Let_def run_simps body_def seq_def)
    next
      case (Inr content)
      from scan_lines_shape [of "file_lines content"] assms
      show ?thesis
        unfolding get_game_path_windows_open [OF Some True Inr]
        by (auto simp: stmt_simps body_def run_simps)
    qed
  qed
qed

text \<open>
  C5. On the Windows branch the locator returns \<^verbatim>\<open>None\<close> when \<^verbatim>\<open>USERPROFILE\<close> is not
  set, when \<^verbatim>\<open>Player.log\<close> does not exist, and when no line of the log matches. Otherwise
  it returns the first group of the first matching line, the lines being read from the
  top. A line matches exactly when it contains \<^verbatim>\<open>Loading player data from \<close>, a non-empty
  run of characters without newline (the group), \<^verbatim>\<open>/StarRail_Data/data\<close>, one character
  that is no newline, and \<^verbatim>\<open>unity3d\<close>. For the line
  \<^verbatim>\<open>Loading player data from /opt/games/StarRail/StarRail_Data/data.unity3d\<close> the group is
  \<^verbatim>\<open>/opt/games/StarRail\<close>.
\<close>

theorem get_game_path_windows_scan:
  "(environ w ''USERPROFILE'' = None \<longrightarrow>
      get_game_path_windows w
        = ([Log DEBUG ''USERPROFILE environment variable does not exist''], Inr None)) \<and>
   (environ w ''USERPROFILE'' = Some u \<and> \<not> path_exists w (player_log w u) \<longrightarrow>
      get_game_path_windows w = ([Log DEBUG ''Player.log not found''], Inr None)) \<and>
   (environ w ''USERPROFILE'' = Some u \<and> path_exists w (player_log w u) \<and>
    open_text w (player_log w u) = Inr text \<longrightarrow>
      ((\<forall>l \<in> set (file_lines text). regex_search l = None) \<longrightarrow>
         get_game_path_windows w = ([Log DEBUG ''game path not found in output_log''], Inr None)) \<and>
      (file_lines text = pre @ l # post \<and> (\<forall>l' \<in> set pre. regex_search l' = None) \<and>
       regex_search l = Some g \<longrightarrow>
         get_game_path_windows w = ([], Inr (Some g)))) \<and>
   (regex_search l = Some g \<longrightarrow>
      g \<noteq> [] \<and> CHR 0x0A \<notin> set g \<and>
      (\<exists>a c b. c \<noteq> CHR 0x0A \<and>
         l = a @ ''Loading player data from '' @ g @ ''/StarRail_Data/data'' @ [c] @ ''unity3d'' @ b)) \<and>
   ((regex_search l = None) =
      (\<nexists>a g c b. g \<noteq> [] \<and> CHR 0x0A \<notin> set g \<and> c \<noteq> CHR 0x0A \<and>
         l = a @ ''Loading player data from '' @ g @ ''/StarRail_Data/data'' @ [c] @ ''unity3d'' @ b)) \<and>
   regex_search (''Loading player data from /opt/games/StarRail/StarRail_Data/data.unity3d'' @ [CHR 0x0A])
     = Some ''/opt/games/StarRail''"
proof -
  have a: "get_game_path_windows w
        = ([Log DEBUG ''USERPROFILE environment variable does not exist''], Inr None)"
    if "environ w ''USERPROFILE'' = None"
    using that by (simp add: get_game_path_windows_def run_simps)
  have b: "get_game_path_windows w = ([Log DEBUG ''Player.log not found''], Inr None)"
    if "environ w ''USERPROFILE'' = Some u \<and> \<not> path_exists w (player_log w u)"
    using that by (simp add: get_game_path_windows_def Let_def run_simps)
  have c: "get_game_path_windows w = ([Log DEBUG ''game path not found in output_log''], Inr None)"
    if "environ w ''USERPROFILE'' = Some u \<and> path_exists w (player_log w u) \<and>
        open_text w (player_log w u) = Inr text"
      and "\<forall>l \<in> set (file_lines text). regex_search l = None"
  proof -
    from that(1) have h: "environ w ''USERPROFILE'' = Some u" "path_exists w (player_log w u)"
      "open_text w (player_log w u) = Inr text" by simp_all
    have "get_game_path_windows w =
       body (seq (scan_lines (file_lines text))
                 (bind_run (logging DEBUG ''game path not found in output_log'')
                    (\<lambda>_. return_run (Returns None))))"
      by (rule get_game_path_windows_open [OF h])
    then show ?thesis
      by (simp add: scan_lines_none [OF that(2)] stmt_simps body_def run_simps)
  qed
  have d: "get_game_path_windows w = ([], Inr (Some g))"
    if "environ w ''USERPROFILE'' = Some u \<and> path_exists w (player_log w u) \<and>
        open_text w (player_log w u) = Inr text"
      and "file_lines text = pre @ l # post \<and> (\<forall>l' \<in> set pre. regex_search l' = None) \<and>
       regex_search l = Some g"
  proof -
    from that(1) have h: "environ w ''USERPROFILE'' = Some u" "path_exists w (player_log w u)"
      "open_text w (player_log w u) = Inr text" by simp_all
    have "get_game_path_windows w =
       body (seq (scan_lines (file_lines text))
                 (bind_run (logging DEBUG ''game path not found in output_log'')
                    (\<lambda>_. return_run (Returns None))))"
      by (rule get_game_path_windows_open [OF h])
    moreover from that(2) have "scan_lines (file_lines text) = ([], Inr (Returns (Some g)))"
      by (simp add: scan_lines_first)
    ultimately show ?thesis by (simp add: stmt_simps body_def run_simps)
  qed
  have e: "g \<noteq> [] \<and> CHR 0x0A \<notin> set g \<and>
      (\<exists>a c b. c \<noteq> CHR 0x0A \<and>
         l = a @ ''Loading player data from '' @ g @ ''/StarRail_Data/data'' @ [c] @ ''unity3d'' @ b)"
    if "regex_search l = Some g"
    using that by (rule regex_search_sound)
  have f: "(regex_search l = None) =
      (\<nexists>a g c b. g \<noteq> [] \<and> CHR 0x0A \<notin> set g \<and> c \<noteq> CHR 0x0A \<and>
         l = a @ ''Loading player data from '' @ g @ ''/StarRail_Data/data'' @ [c] @ ''unity3d'' @ b)"
    using regex_search_iff [of l] by blast
  have g: "regex_search (''Loading player data from /opt/games/StarRail/StarRail_Data/data.unity3d'' @ [CHR 0x0A])
     = Some ''/opt/games/StarRail''"
    using regex_search_loading_line by (simp add: loading_line_def)
  from a b c d e f g show ?thesis by blast
qed

lemma windows_world_log:
  "environ windows_world ''USERPROFILE'' = Some user_profile \<and>
   path_exists windows_world (player_log windows_world user_profile) \<and>
   open_text windows_world (player_log windows_world user_profile) = Inr log_text"
  by (simp add: windows_world_def bare_world_def player_log_def joinpath_def name_def)

lemma file_lines_log_text: "file_lines log_text = [''Mono path[0] = unknown'' @ [CHR 0x0A]] @ loading_line # []"
  by (simp add: log_text_def loading_line_def)

lemma regex_search_mono_line: "regex_search (''Mono path[0] = unknown'' @ [CHR 0x0A]) = None"
  by (simp add: regex_match_here_def regex_head_def)

theorem get_game_path_windows_scan_witness:
  "get_game_path_windows windows_world = ([], Inr (Some ''/opt/games/StarRail''))"
proof -
  have p: "\<forall>l' \<in> set [''Mono path[0] = unknown'' @ [CHR 0x0A]]. regex_search l' = None"
    using regex_search_mono_line by simp
  from get_game_path_windows_scan
         [of windows_world user_profile log_text "[''Mono path[0] = unknown'' @ [CHR 0x0A]]"
             loading_line "[]" "''/opt/games/StarRail''"]
       windows_world_log file_lines_log_text regex_search_loading_line p
  show ?thesis by blast
qed

text \<open>
  C9. What the Windows branch returns on a match is a non-empty \<^verbatim>\<open>str\<close>, not a
  \<^verbatim>\<open>Path\<close>. \<^verbatim>\<open>get_web_cache_path\<close> applied to a \<^verbatim>\<open>str\<close> raises \<^verbatim>\<open>TypeError\<close>, and so
  does \<^verbatim>\<open>get_cache_path\<close> whenever \<^verbatim>\<open>get_game_path\<close> took the Windows branch and the
  log had a matching line.
\<close>

theorem windows_game_path_is_str:
  "(get_game_path_windows w = (t, Inr (Some s)) \<longrightarrow> s \<noteq> []) \<and>
   get_web_cache_path w (PStr s) = ([], Inl TypeError) \<and>
   (environ w ''GAME_PATH'' = None \<and> sys_platform w = Win32 \<and>
    get_game_path_windows w = (t, Inr (Some s)) \<longrightarrow>
      get_game_path w = (t, Inr (Some (PStr s))) \<and> get_cache_path w = (t, Inl TypeError))"
proof -
  have a: "s \<noteq> []" if "get_game_path_windows w = (t, Inr (Some s))"
    using that by (rule get_game_path_windows_Some)
  have b: "get_web_cache_path w (PStr s) = ([], Inl TypeError)"
    by (simp add: get_web_cache_path_def truediv_def run_simps)
  have c: "get_game_path w = (t, Inr (Some (PStr s))) \<and> get_cache_path w = (t, Inl TypeError)"
    if "environ w ''GAME_PATH'' = None \<and> sys_platform w = Win32 \<and>
        get_game_path_windows w = (t, Inr (Some s))"
  proof -
    from that have g: "get_game_path w = (t, Inr (Some (PStr s)))"
      by (simp add: get_game_path_def run_simps)
    from that have "s \<noteq> []" by (simp add: a)
    then have "get_cache_path w = (t, Inl TypeError)"
      by (simp add: get_cache_path_def g b run_simps)
    with g show ?thesis by simp
  qed
  from a b c show ?thesis by blast
qed

theorem windows_game_path_is_str_witness:
  "get_game_path windows_world = ([], Inr (Some (PStr ''/opt/games/StarRail''))) \<and>
   get_cache_path windows_world = ([], Inl TypeError)"
proof -
  have p: "\<forall>l' \<in> set [''Mono path[0] = unknown'' @ [CHR 0x0A]]. regex_search l' = None"
    using regex_search_mono_line by simp
  have "scan_lines (file_lines log_text) = ([], Inr (Returns (Some ''/opt/games/StarRail'')))"
    unfolding file_lines_log_text using p regex_search_loading_line by (rule scan_lines_first)
  then have w: "get_game_path_windows windows_world = ([], Inr (Some ''/opt/games/StarRail''))"
    using windows_world_log
    by (simp add: get_game_path_windows_open [of windows_world user_profile log_text]
          stmt_simps body_def run_simps)
  have e: "environ windows_world ''GAME_PATH'' = None \<and> sys_platform windows_world = Win32"
    by (simp add: windows_world_def bare_world_def)
  from windows_game_path_is_str [of windows_world "[]" "''/opt/games/StarRail''"] w e
  show ?thesis by simp
qed

section \<open>The override variable\<close>

text \<open>
  C6. When \<^verbatim>\<open>GAME_PATH\<close> is set, \<^verbatim>\<open>get_game_path\<close> returns the \<^verbatim>\<open>Games\<close> directory
  beneath the override path if that exists, and the override path itself otherwise. It
  logs nothing, and its result depends on nothing but the value of the variable, the path
  made of it and the existence of the \<^verbatim>\<open>Games\<close> directory: not on the platform, on any
  log or launcher configuration, or on the existence of the override path.
\<close>

theorem get_game_path_override:
  "environ w ''GAME_PATH'' = Some s \<longrightarrow>
     (path_exists w (joinpath (pathlib w s) [''Games'']) \<longrightarrow>
        get_game_path w = ([], Inr (Some (PPath (joinpath (pathlib w s) [''Games'']))))) \<and>
     (\<not> path_exists w (joinpath (pathlib w s) [''Games'']) \<longrightarrow>
        get_game_path w = ([], Inr (Some (PPath (pathlib w s))))) \<and>
     (environ w' ''GAME_PATH'' = Some s \<and> pathlib w' s = pathlib w s \<and>
      path_exists w' (joinpath (pathlib w s) [''Games''])
        = path_exists w (joinpath (pathlib w s) [''Games'']) \<longrightarrow>
        get_game_path w' = get_game_path w)"
  by (simp add: get_game_path_def Let_def return_run_def)

theorem get_game_path_override_witness:
  "get_game_path override_world
     = ([], Inr (Some (PPath (PurePath ''/'' [''mnt'', ''hsr'', ''Games''])))) \<and>
   get_game_path missing_world
     = ([], Inr (Some (PPath (PurePath ''/'' [''opt'', ''games'', ''StarRail''])))) \<and>
   get_game_path override_windows_world
     = ([], Inr (Some (PPath (PurePath (''D:'' @ [CHR 0x5C]) [''hsr''])))) \<and>
   get_game_path override_linux_world = get_game_path override_world"
proof -
  have a: "environ override_world ''GAME_PATH'' = Some ''/mnt/hsr''"
    "pathlib override_world ''/mnt/hsr'' = PurePath ''/'' [''mnt'', ''hsr'']"
    "path_exists override_world (joinpath (PurePath ''/'' [''mnt'', ''hsr'']) [''Games''])"
    by (simp_all add: override_world_def bare_world_def posix_path_def joinpath_def)
  have b: "environ override_linux_world ''GAME_PATH'' = Some ''/mnt/hsr''"
    "pathlib override_linux_world ''/mnt/hsr'' = PurePath ''/'' [''mnt'', ''hsr'']"
    "path_exists override_linux_world (joinpath (PurePath ''/'' [''mnt'', ''hsr'']) [''Games''])"
    by (simp_all add: override_linux_world_def china_world_def bare_world_def posix_path_def
          joinpath_def name_def)
  have c: "environ missing_world ''GAME_PATH'' = Some ''/opt/games/StarRail''"
    "pathlib missing_world ''/opt/games/StarRail'' = PurePath ''/'' [''opt'', ''games'', ''StarRail'']"
    "\<not> path_exists missing_world (joinpath (PurePath ''/'' [''opt'', ''games'', ''StarRail'']) [''Games''])"
    by (simp_all add: missing_world_def bare_world_def posix_path_def)
  have d: "environ override_windows_world ''GAME_PATH'' = Some (''D:'' @ [CHR 0x5C] @ ''hsr'')"
    "pathlib override_windows_world (''D:'' @ [CHR 0x5C] @ ''hsr'') = PurePath (''D:'' @ [CHR 0x5C]) [''hsr'']"
    "\<not> path_exists override_windows_world (joinpath (PurePath (''D:'' @ [CHR 0x5C]) [''hsr'']) [''Games''])"
    by (simp_all add: override_windows_world_def windows_world_def bare_world_def windows_path_def
          joinpath_def name_def)
  from get_game_path_override [of override_world "''/mnt/hsr''" override_linux_world] a b
  have 1: "get_game_path override_world
             = ([], Inr (Some (PPath (PurePath ''/'' [''mnt'', ''hsr'', ''Games'']))))"
    and 4: "get_game_path override_linux_world = get_game_path override_world"
    by (simp_all add: joinpath_def)
  from get_game_path_override [of missing_world "''/opt/games/StarRail''" missing_world] c
  have 2: "get_game_path missing_world
     = ([], Inr (Some (PPath (PurePath ''/'' [''opt'', ''games'', ''StarRail'']))))"
    by simp
  from get_game_path_override [of override_windows_world "''D:'' @ [CHR 0x5C] @ ''hsr''" override_windows_world] d
  have 3: "get_game_path override_windows_world
     = ([], Inr (Some (PPath (PurePath (''D:'' @ [CHR 0x5C]) [''hsr'']))))"
    by simp
  from 1 2 3 4 show ?thesis by simp
qed

section \<open>The launcher configuration on Linux\<close>

lemma region_path_obj:
  "region_path w (JObj [(''game'', JObj [(''path'', JObj regions)])]) r =
     (case map_of (rev regions) r of
        None \<Rightarrow> ([], Inl KeyError)
      | Some v \<Rightarrow> path_of_json w v)"
  by (simp add: region_path_def run_simps split: option.splits)

lemma region_path_no_game:
  "map_of (rev cfg) ''game'' = None \<Longrightarrow> region_path w (JObj cfg) r = ([], Inl KeyError)"
  by (simp add: region_path_def run_simps)

lemma region_path_no_path:
  "map_of (rev cfg) ''game'' = Some (JObj gk) \<Longrightarrow> map_of (rev gk) ''path'' = None \<Longrightarrow>
     region_path w (JObj cfg) r = ([], Inl KeyError)"
  by (simp add: region_path_def run_simps)

lemma region_path_found:
  "map_of (rev cfg) ''game'' = Some (JObj gk) \<Longrightarrow> map_of (rev gk) ''path'' = Some (JObj regions) \<Longrightarrow>
     region_path w (JObj cfg) r =
       (case map_of (rev regions) r of
          None \<Rightarrow> ([], Inl KeyError)
        | Some v \<Rightarrow> path_of_json w v)"
  by (simp add: region_path_def run_simps split: option.splits)

lemma get_game_path_linux_loaded:
  assumes "path_exists w (hsr_config_path w)" and "json_load w (hsr_config_path w) = Inr config"
  shows "get_game_path_linux w =
     body (seq
            (try_except
               (bind_run (region_path w config ''global'') (\<lambda>global_path.
                  if path_exists w global_path then return_run (Returns (Some global_path))
                  else bind_run (region_path w config ''china'') (\<lambda>china_path.
                    if path_exists w china_path then return_run (Returns (Some china_path))
                    else return_run Fallthrough)))
               (\<lambda>e. e = KeyError)
               (return_run Fallthrough))
            (bind_run (logging DEBUG ''game folder configuration in launcher could not be found'')
               (\<lambda>_. return_run (Returns None))))"
  using assms by (simp add: get_game_path_linux_def run_simps)

text \<open>
  C7. On the Linux branch the locator returns \<^verbatim>\<open>None\<close> when the launcher configuration
  does not exist. Otherwise, with \<open>g\<close> and \<open>c\<close> the paths under the keys
  \<^verbatim>\<open>game.path.global\<close> and \<^verbatim>\<open>game.path.china\<close>, it returns \<open>g\<close> if \<open>g\<close> exists, else \<open>c\<close> if
  \<open>c\<close> exists, else \<^verbatim>\<open>None\<close>; it returns \<^verbatim>\<open>None\<close> as well when a key it has to look up
  on the way is missing: \<^verbatim>\<open>game\<close>, \<^verbatim>\<open>path\<close> or \<^verbatim>\<open>global\<close>, or \<^verbatim>\<open>china\<close> once the global
  path turned out not to exist.
\<close>

theorem get_game_path_linux_regions:
  "(\<not> path_exists w (hsr_config_path w) \<longrightarrow>
      get_game_path_linux w = ([Log DEBUG ''launcher configuration not found''], Inr None)) \<and>
   (path_exists w (hsr_config_path w) \<and> json_load w (hsr_config_path w) = Inr config \<longrightarrow>
      (region_path w config ''global'' = ([], Inr g) \<and> path_exists w g \<longrightarrow>
         get_game_path_linux w = ([], Inr (Some g))) \<and>
      (region_path w config ''global'' = ([], Inr g) \<and> \<not> path_exists w g \<and>
       region_path w config ''china'' = ([], Inr c) \<and> path_exists w c \<longrightarrow>
         get_game_path_linux w = ([], Inr (Some c))) \<and>
      (region_path w config ''global'' = ([], Inr g) \<and> \<not> path_exists w g \<and>
       region_path w config ''china'' = ([], Inr c) \<and> \<not> path_exists w c \<longrightarrow>
         get_game_path_linux w
           = ([Log DEBUG ''game folder configuration in launcher could not be found''], Inr None)) \<and>
      (region_path w config ''global'' = ([], Inl KeyError) \<longrightarrow>
         get_game_path_linux w
           = ([Log DEBUG ''game folder configuration in launcher could not be found''], Inr None)) \<and>
      (region_path w config ''global'' = ([], Inr g) \<and> \<not> path_exists w g \<and>
       region_path w config ''china'' = ([], Inl KeyError) \<longrightarrow>
         get_game_path_linux w
           = ([Log DEBUG ''game folder configuration in launcher could not be found''], Inr None))) \<and>
   (map_of (rev cfg) ''game'' = None \<longrightarrow> region_path w (JObj cfg) r = ([], Inl KeyError)) \<and>
   (map_of (rev cfg) ''game'' = Some (JObj gk) \<and> map_of (rev gk) ''path'' = None \<longrightarrow>
      region_path w (JObj cfg) r = ([], Inl KeyError)) \<and>
   (map_of (rev cfg) ''game'' = Some (JObj gk) \<and> map_of (rev gk) ''path'' = Some (JObj regions) \<longrightarrow>
      (map_of (rev regions) r = None \<longrightarrow> region_path w (JObj cfg) r = ([], Inl KeyError)) \<and>
      (map_of (rev regions) r = Some (JStr s) \<longrightarrow> region_path w (JObj cfg) r = ([], Inr (pathlib w s))))"
proof -
  have a: "get_game_path_linux w = ([Log DEBUG ''launcher configuration not found''], Inr None)"
    if "\<not> path_exists w (hsr_config_path w)"
    using that by (simp add: get_game_path_linux_def run_simps)
  have b: "(region_path w config ''global'' = ([], Inr g) \<and> path_exists w g \<longrightarrow>
         get_game_path_linux w = ([], Inr (Some g))) \<and>
      (region_path w config ''global'' = ([], Inr g) \<and> \<not> path_exists w g \<and>
       region_path w config ''china'' = ([], Inr c) \<and> path_exists w c \<longrightarrow>
         get_game_path_linux w = ([], Inr (Some c))) \<and>
      (region_path w config ''global'' = ([], Inr g) \<and> \<not> path_exists w g \<and>
       region_path w config ''china'' = ([], Inr c) \<and> \<not> path_exists w c \<longrightarrow>
         get_game_path_linux w
           = ([Log DEBUG ''game folder configuration in launcher could not be found''], Inr None)) \<and>
      (region_path w config ''global'' = ([], Inl KeyError) \<longrightarrow>
         get_game_path_linux w
           = ([Log DEBUG ''game folder configuration in launcher could not be found''], Inr None)) \<and>
      (region_path w config ''global'' = ([], Inr g) \<and> \<not> path_exists w g \<and>
       region_path w config ''china'' = ([], Inl KeyError) \<longrightarrow>
         get_game_path_linux w
           = ([Log DEBUG ''game folder configuration in launcher could not be found''], Inr None))"
    if "path_exists w (hsr_config_path w) \<and> json_load w (hsr_config_path w) = Inr config"
  proof -
    from that have h: "path_exists w (hsr_config_path w)" "json_load w (hsr_config_path w) = Inr config"
      by simp_all
    show ?thesis
      unfolding get_game_path_linux_loaded [OF h]
      by (simp add: run_simps stmt_simps body_def)
  qed
  have c: "region_path w (JObj cfg) r = ([], Inl KeyError)" if "map_of (rev cfg) ''game'' = None"
    using that by (rule region_path_no_game)
  have d: "region_path w (JObj cfg) r = ([], Inl KeyError)"
    if "map_of (rev cfg) ''game'' = Some (JObj gk) \<and> map_of (rev gk) ''path'' = None"
    using that by (simp add: region_path_no_path)
  have e: "(map_of (rev regions) r = None \<longrightarrow> region_path w (JObj cfg) r = ([], Inl KeyError)) \<and>
      (map_of (rev regions) r = Some (JStr s) \<longrightarrow> region_path w (JObj cfg) r = ([], Inr (pathlib w s)))"
    if "map_of (rev cfg) ''game'' = Some (JObj gk) \<and> map_of (rev gk) ''path'' = Some (JObj regions)"
    using that by (simp add: region_path_found return_run_def)
  from a b c d e show ?thesis by blast
qed

lemma china_world_config:
  "path_exists china_world (hsr_config_path china_world) \<and>
   json_load china_world (hsr_config_path china_world) = Inr launcher_config"
  by (simp add: china_world_def bare_world_def hsr_config_path_def)

lemma china_world_regions:
  "region_path china_world launcher_config ''global'' = ([], Inr (PurePath ''/'' [''games'', ''global''])) \<and>
   region_path china_world launcher_config ''china'' = ([], Inr (PurePath ''/'' [''games'', ''china'']))"
  by (simp add: launcher_config_def region_path_def run_simps china_world_def bare_world_def posix_path_def)

theorem get_game_path_linux_regions_witness:
  "get_game_path_linux china_world = ([], Inr (Some (PurePath ''/'' [''games'', ''china''])))"
proof -
  have e: "\<not> path_exists china_world (PurePath ''/'' [''games'', ''global''])"
    "path_exists china_world (PurePath ''/'' [''games'', ''china''])"
    by (simp_all add: china_world_def bare_world_def hsr_config_path_def joinpath_def)
  from get_game_path_linux_regions
         [of china_world launcher_config "PurePath ''/'' [''games'', ''global'']"
             "PurePath ''/'' [''games'', ''china'']"]
       china_world_config china_world_regions e
  show ?thesis by blast
qed

section \<open>Soft misses of the cache location\<close>

lemma get_web_cache_path_listdir_raises:
  "listdir w (web_caches gp) = Inl e \<Longrightarrow> get_web_cache_path w (PPath gp) = ([], Inl e)"
  by (simp add: get_web_cache_path_def truediv_def iterdir_def web_caches_def run_simps)

lemma get_cache_path_listdir_raises:
  assumes "get_game_path w = (t, Inr (Some (PPath gp)))" and "listdir w (web_caches gp) = Inl e"
  shows "get_cache_path w = (t, Inl e)"
  using assms by (simp add: get_cache_path_def get_web_cache_path_listdir_raises run_simps)

text \<open>
  The soft misses that do yield \<^verbatim>\<open>None\<close>: a web-cache root that can be listed and has no
  version directory, and a version directory without the cache data file.
\<close>

lemma get_cache_path_soft_miss:
  assumes "get_game_path w = (t, Inr (Some (PPath gp)))" and "listdir w (web_caches gp) = Inr names"
  shows "(version_names w (web_caches gp) names = [] \<longrightarrow>
            get_cache_path w
              = (t @ [Log DEBUG ''could not find latest webCaches subfolder''], Inr None)) \<and>
         (get_web_cache_path w (PPath gp) = ([], Inr (Some v)) \<and>
          \<not> path_exists w (joinpath v [''Cache'', ''Cache_Data'', ''data_2'']) \<longrightarrow>
            get_cache_path w
              = (t @ [Log DEBUG (''cache path is: ''
                          @ path_str (sys_platform w) (joinpath v [''Cache'', ''Cache_Data'', ''data_2''])),
                      Log DEBUG ''cache file does not exist''], Inr None))"
  using assms
  by (simp add: get_cache_path_def get_web_cache_path_eq run_simps Let_def)

text \<open>
  C8. A web-cache root that does not exist is meant to be a soft miss as well, but
  \<^verbatim>\<open>get_web_cache_path\<close> lists the root without looking whether it exists, and
  \<^verbatim>\<open>get_cache_path\<close> has no handler around the call: on a machine where \<^verbatim>\<open>GAME_PATH\<close>
  names a directory without \<^verbatim>\<open>StarRail_Data/webCaches\<close>, \<^verbatim>\<open>get_cache_path\<close> ends with
  \<^verbatim>\<open>FileNotFoundError\<close> instead of returning \<^verbatim>\<open>None\<close>.
\<close>

theorem get_cache_path_missing_root:
  "get_game_path missing_world = ([], Inr (Some (PPath star_rail))) \<and>
   listdir missing_world (web_caches star_rail) = Inl FileNotFoundError \<and>
   get_cache_path missing_world = ([], Inl FileNotFoundError)"
proof -
  have g: "get_game_path missing_world = ([], Inr (Some (PPath star_rail)))"
    by (simp add: get_game_path_def missing_world_def bare_world_def posix_path_def star_rail_def
          Let_def return_run_def)
  have l: "listdir missing_world (web_caches star_rail) = Inl FileNotFoundError"
    by (simp add: missing_world_def bare_world_def)
  from g l get_cache_path_listdir_raises [OF g l] show ?thesis by simp
qed

end
